theory Spec2Isabelle
  imports Complex_Main
begin

section \<open>Baseline fitting of pyspeckit: a model of \<open>pyspeckit/spectrum/baseline.py\<close>\<close>

text \<open>
  The class \<open>Baseline\<close> keeps a fitted continuum curve for a host spectrum, the masks that
  select the samples taking part in the fit, and a flag telling whether the curve is
  currently subtracted from the host data. The numbers of the source are floating-point
  numbers. The series to fit, the coordinates, the uncertainties and the parameters are
  idealised here as real numbers. The fitted curve and the host data keep the infinities
  and NaN of floating-point arithmetic, because the power law produces them; on finite
  values their arithmetic is that of the real numbers. The fit statistic, which the
  source tests with \<open>np.isnan\<close>, keeps its special values too.
  The plotting collaborator is absent (\<open>specplotter.axis is None\<close>) and \<open>LoudDebug\<close>
  is off, so the only output is the message printed by \<open>unsubtract\<close>.
\<close>

subsection \<open>Errors\<close>

datatype error =
    ChiSquaredNaN      \<comment> \<open>\<open>ValueError("chi^2 is NAN in baseline fitting")\<close>\<close>
  | ShapeMismatch      \<comment> \<open>\<open>ValueError\<close>: operands could not be broadcast together\<close>
  | EmptyArgmin        \<comment> \<open>\<open>ValueError\<close>: argmin of an empty sequence\<close>
  | SliceStepZero      \<comment> \<open>\<open>ValueError\<close>: slice step cannot be zero\<close>
  | IndexError
  | TypeError
  | AttributeError

subsection \<open>Arrays\<close>

text \<open>
  A one-dimensional array is a list. Slices follow Python: a negative bound counts from
  the end, and every bound is clamped to the length; \<open>None\<close> is the open end.
  Boolean arrays follow the numpy the code was written for: \<open>True - m\<close> negates \<open>m\<close>, and
  \<open>+\<close> is the disjunction. An index by a boolean array of another length raises
  \<open>IndexError\<close>, and elementwise operations on arrays that do not broadcast raise
  \<open>ValueError\<close>.
\<close>

definition slice_index :: "nat \<Rightarrow> int \<Rightarrow> nat" where
  "slice_index n i = (if i < 0 then nat (max 0 (int n + i)) else min n (nat i))"

definition slice_lo :: "nat \<Rightarrow> int option \<Rightarrow> nat" where
  "slice_lo n a = (case a of None \<Rightarrow> 0 | Some i \<Rightarrow> slice_index n i)"

definition slice_hi :: "nat \<Rightarrow> int option \<Rightarrow> nat" where
  "slice_hi n b = (case b of None \<Rightarrow> n | Some j \<Rightarrow> slice_index n j)"

text \<open>\<open>xs[a:b]\<close>\<close>

definition getslice :: "'a list \<Rightarrow> int option \<Rightarrow> int option \<Rightarrow> 'a list" where
  "getslice xs a b =
     (let lo = slice_lo (length xs) a; hi = slice_hi (length xs) b
      in take (hi - lo) (drop lo xs))"

text \<open>\<open>xs[a:b] = v\<close> for a scalar \<open>v\<close>: the element at position \<open>i\<close> (counted from \<open>k\<close>).\<close>

fun setrange :: "nat \<Rightarrow> nat \<Rightarrow> nat \<Rightarrow> 'a \<Rightarrow> 'a list \<Rightarrow> 'a list" where
  "setrange k lo hi v [] = []"
| "setrange k lo hi v (x # xs) =
     (if lo \<le> k \<and> k < hi then v else x) # setrange (Suc k) lo hi v xs"

definition setslice :: "'a list \<Rightarrow> int option \<Rightarrow> int option \<Rightarrow> 'a \<Rightarrow> 'a list" where
  "setslice xs a b v = setrange 0 (slice_lo (length xs) a) (slice_hi (length xs) b) v xs"

text \<open>\<open>xs[::k]\<close> for a positive step: the counter \<open>c\<close> says how many elements to skip next.\<close>

fun stride_from :: "nat \<Rightarrow> nat \<Rightarrow> 'a list \<Rightarrow> 'a list" where
  "stride_from k c [] = []"
| "stride_from k c (x # xs) =
     (if c = 0 then x # stride_from k (k - 1) xs else stride_from k (c - 1) xs)"

text \<open>\<open>xs[::factor]\<close>: a negative step walks from the last element; step zero raises.\<close>

definition getstride :: "'a list \<Rightarrow> int \<Rightarrow> error + 'a list" where
  "getstride xs factor =
     (if factor = 0 then Inl SliceStepZero
      else if 0 < factor then Inr (stride_from (nat factor) 0 xs)
      else Inr (stride_from (nat (- factor)) 0 (rev xs)))"

text \<open>\<open>xs[m]\<close> and \<open>xs[m] = v\<close> for a boolean array \<open>m\<close>: the lengths must agree.\<close>

definition mask_select :: "'a list \<Rightarrow> bool list \<Rightarrow> error + 'a list" where
  "mask_select xs m =
     (if length m = length xs then Inr (map fst (filter snd (zip xs m))) else Inl IndexError)"

definition mask_assign :: "'a list \<Rightarrow> bool list \<Rightarrow> 'a \<Rightarrow> error + 'a list" where
  "mask_assign xs m v =
     (if length m = length xs then Inr (map (\<lambda>(x, b). if b then v else x) (zip xs m))
      else Inl IndexError)"

text \<open>
  Elementwise operations broadcast: the lengths agree, or one operand has length one.
  An operation in place (\<open>xs op= ys\<close>) keeps the shape of \<open>xs\<close>.
\<close>

definition broadcast2 :: "('a \<Rightarrow> 'b \<Rightarrow> 'c) \<Rightarrow> 'a list \<Rightarrow> 'b list \<Rightarrow> error + 'c list" where
  "broadcast2 f xs ys =
     (if length xs = length ys then Inr (map (\<lambda>(x, y). f x y) (zip xs ys))
      else if length xs = 1 then Inr (map (f (hd xs)) ys)
      else if length ys = 1 then Inr (map (\<lambda>x. f x (hd ys)) xs)
      else Inl ShapeMismatch)"

definition broadcast_inplace :: "('a \<Rightarrow> 'b \<Rightarrow> 'a) \<Rightarrow> 'a list \<Rightarrow> 'b list \<Rightarrow> error + 'a list" where
  "broadcast_inplace f xs ys =
     (if length ys = length xs then Inr (map (\<lambda>(x, y). f x y) (zip xs ys))
      else if length ys = 1 then Inr (map (\<lambda>x. f x (hd ys)) xs)
      else Inl ShapeMismatch)"

text \<open>
  A value of the fitted curve or of the host data: a number, an infinity, or NaN.
\<close>

datatype fvalue = Num real | PInf | NInf | NotANumber

definition is_num :: "fvalue \<Rightarrow> bool" where
  "is_num v = (case v of Num r \<Rightarrow> True | _ \<Rightarrow> False)"

fun fneg :: "fvalue \<Rightarrow> fvalue" where
  "fneg (Num a) = Num (- a)"
| "fneg PInf = NInf"
| "fneg NInf = PInf"
| "fneg NotANumber = NotANumber"

text \<open>Addition: NaN absorbs, and the sum of opposite infinities is NaN.\<close>

fun fadd :: "fvalue \<Rightarrow> fvalue \<Rightarrow> fvalue" where
  "fadd (Num a) (Num b) = Num (a + b)"
| "fadd (Num a) PInf = PInf"
| "fadd (Num a) NInf = NInf"
| "fadd PInf (Num b) = PInf"
| "fadd PInf PInf = PInf"
| "fadd PInf NInf = NotANumber"
| "fadd NInf (Num b) = NInf"
| "fadd NInf PInf = NotANumber"
| "fadd NInf NInf = NInf"
| "fadd NotANumber y = NotANumber"
| "fadd x NotANumber = NotANumber"

definition fsub :: "fvalue \<Rightarrow> fvalue \<Rightarrow> fvalue" where
  "fsub x y = fadd x (fneg y)"

text \<open>The quotient \<open>x / y\<close> of two numbers: a division by zero gives an infinity or NaN.\<close>

definition fdiv :: "real \<Rightarrow> real \<Rightarrow> fvalue" where
  "fdiv x y =
     (if y \<noteq> 0 then Num (x / y)
      else if 0 < x then PInf else if x < 0 then NInf else NotANumber)"

text \<open>
  The power \<open>v ** e\<close> for a number \<open>e\<close>: everything to the power zero is one; a negative
  base has a power only for a whole exponent; zero to a negative power is infinite.
\<close>

definition is_whole :: "real \<Rightarrow> bool" where
  "is_whole e = (e = of_int \<lfloor>e\<rfloor>)"

fun fpow :: "fvalue \<Rightarrow> real \<Rightarrow> fvalue" where
  "fpow (Num a) e =
     (if e = 0 then Num 1
      else if 0 < a then Num (a powr e)
      else if a = 0 then (if 0 < e then Num 0 else PInf)
      else if is_whole e then Num (a powi \<lfloor>e\<rfloor>)
      else NotANumber)"
| "fpow PInf e = (if e = 0 then Num 1 else if 0 < e then PInf else Num 0)"
| "fpow NInf e =
     (if e = 0 then Num 1
      else if 0 < e then (if is_whole e \<and> odd \<lfloor>e\<rfloor> then NInf else PInf)
      else Num 0)"
| "fpow NotANumber e = (if e = 0 then Num 1 else NotANumber)"

text \<open>The product \<open>c * v\<close> of a number and a value: zero times an infinity is NaN.\<close>

fun fscale :: "real \<Rightarrow> fvalue \<Rightarrow> fvalue" where
  "fscale c (Num v) = Num (c * v)"
| "fscale c PInf = (if 0 < c then PInf else if c < 0 then NInf else NotANumber)"
| "fscale c NInf = (if 0 < c then NInf else if c < 0 then PInf else NotANumber)"
| "fscale c NotANumber = NotANumber"

text \<open>
  The fitted curve goes through \<open>.squeeze()\<close>, which turns a one-element array into a
  zero-dimensional one: a scalar that broadcasts, but has no length and cannot be sliced.
\<close>

datatype ndarray = Array0 fvalue | Array1 "fvalue list"

definition squeeze :: "fvalue list \<Rightarrow> ndarray" where
  "squeeze xs = (if length xs = 1 then Array0 (hd xs) else Array1 xs)"

text \<open>\<open>data += curve\<close> and \<open>data -= curve\<close>\<close>

definition iadd :: "fvalue list \<Rightarrow> ndarray \<Rightarrow> error + fvalue list" where
  "iadd d c = (case c of Array0 v \<Rightarrow> Inr (map (\<lambda>x. fadd x v) d)
                       | Array1 ys \<Rightarrow> broadcast_inplace fadd d ys)"

definition isub :: "fvalue list \<Rightarrow> ndarray \<Rightarrow> error + fvalue list" where
  "isub d c = (case c of Array0 v \<Rightarrow> Inr (map (\<lambda>x. fsub x v) d)
                       | Array1 ys \<Rightarrow> broadcast_inplace fsub d ys)"

text \<open>\<open>a - curve\<close>, a new array, for a series \<open>a\<close> of numbers\<close>

definition nd_sub :: "real list \<Rightarrow> ndarray \<Rightarrow> error + fvalue list" where
  "nd_sub d c = (case c of Array0 v \<Rightarrow> Inr (map (\<lambda>x. fsub (Num x) v) d)
                         | Array1 ys \<Rightarrow> broadcast2 (\<lambda>x y. fsub (Num x) y) d ys)"

text \<open>\<open>curve[a:b]\<close> and \<open>curve[::factor]\<close>: a zero-dimensional array cannot be indexed.\<close>

definition nd_getslice :: "ndarray \<Rightarrow> int option \<Rightarrow> int option \<Rightarrow> error + ndarray" where
  "nd_getslice c a b = (case c of Array0 v \<Rightarrow> Inl IndexError
                                | Array1 ys \<Rightarrow> Inr (Array1 (getslice ys a b)))"

definition nd_getstride :: "ndarray \<Rightarrow> int \<Rightarrow> error + ndarray" where
  "nd_getstride c factor =
     (case c of Array0 v \<Rightarrow> Inl IndexError
              | Array1 ys \<Rightarrow> (case getstride ys factor of Inl e \<Rightarrow> Inl e
                                                         | Inr zs \<Rightarrow> Inr (Array1 zs)))"

text \<open>\<open>np.argmin\<close>: the first index of the least element; it raises on an empty array.\<close>

fun argmin_from :: "real \<Rightarrow> nat \<Rightarrow> nat \<Rightarrow> real list \<Rightarrow> nat" where
  "argmin_from b bi i [] = bi"
| "argmin_from b bi i (x # xs) =
     (if x < b then argmin_from x i (Suc i) xs else argmin_from b bi (Suc i) xs)"

definition argmin :: "real list \<Rightarrow> error + int" where
  "argmin xs = (case xs of [] \<Rightarrow> Inl EmptyArgmin | x # r \<Rightarrow> Inr (int (argmin_from x 0 1 r)))"

text \<open>\<open>np.poly1d(p)(x)\<close>: coefficients with the highest degree first.\<close>

definition poly1d :: "real list \<Rightarrow> real \<Rightarrow> real" where
  "poly1d p x = foldl (\<lambda>acc c. acc * x + c) 0 p"

text \<open>\<open>np.median\<close> of a non-empty array.\<close>

definition median :: "real list \<Rightarrow> real" where
  "median xs =
     (let s = sort xs; n = length xs
      in if odd n then s ! (n div 2) else (s ! (n div 2 - 1) + s ! (n div 2)) / 2)"

text \<open>\<open>zip(l[::2], l[1::2])\<close>\<close>

fun pairs :: "'a list \<Rightarrow> ('a \<times> 'a) list" where
  "pairs (a # b # r) = (a, b) # pairs r"
| "pairs _ = []"

subsection \<open>The fit statistic and the external collaborators\<close>

datatype fnumber = Finite real | Infinite | NaN

definition isnan :: "fnumber \<Rightarrow> bool" where
  "isnan v = (case v of NaN \<Rightarrow> True | _ \<Rightarrow> False)"

definition isfinite :: "fnumber \<Rightarrow> bool" where
  "isfinite v = (case v of Finite r \<Rightarrow> True | _ \<Rightarrow> False)"

record mp_result =
  mp_params :: "real list"
  mp_fnorm :: fnumber

text \<open>
  The minimiser \<open>mpfit.mpfit\<close> and the unit conversion \<open>xarr.as_unit\<close> live outside this
  file; they are parameters of the model. The minimiser receives the residual function
  and the initial guess.
\<close>

record collaborators =
  mpfit :: "(real list \<Rightarrow> real list) \<Rightarrow> real list \<Rightarrow> mp_result"
  as_unit :: "real list \<Rightarrow> string \<Rightarrow> real list"

subsection \<open>The session\<close>

text \<open>
  An interval list is a Python list of numbers: coordinates, or pixel numbers that are
  used as slice bounds.
\<close>

datatype endpoints = Coords "real list" | Pixels "int list"

definition endpoints_len :: "endpoints \<Rightarrow> nat" where
  "endpoints_len l = (case l of Coords xs \<Rightarrow> length xs | Pixels ks \<Rightarrow> length ks)"

definition endpoints_values :: "endpoints \<Rightarrow> real list" where
  "endpoints_values l = (case l of Coords xs \<Rightarrow> xs | Pixels ks \<Rightarrow> map real_of_int ks)"

text \<open>
  The fields of \<open>Baseline\<close> and of the host \<open>Spectrum\<close> that the fit reads and writes.
  \<open>includepix\<close> and \<open>spectofit\<close> are not created by \<open>__init__\<close>: \<open>None\<close> stands for a
  missing attribute. \<open>stdout\<close> collects what is printed.
\<close>

record session =
  baselinepars :: "real list option"
  order :: "int option"
  basespec :: ndarray
  excludemask :: "bool list"
  OKmask :: "bool list"
  subtracted :: bool
  bx1 :: int
  bx2 :: int
  includepix :: "int list option"
  includevelo :: endpoints
  excludepix :: "int list"
  excludevelo :: endpoints
  powerlaw :: bool
  spectofit :: "real list option"
  Spectrum_data :: "fvalue list"
  Spectrum_xarr :: "real list"
  Spectrum_error :: "real list option"
  stdout :: "string list"

subsection \<open>\<open>unsubtract\<close>, \<open>crop\<close> and \<open>downsample\<close>\<close>

definition not_subtracted_message :: string where
  "not_subtracted_message =
     ''Baseline wasn'' @ [CHR 0x27] @ ''t subtracted; not unsubtracting.''"

text \<open>A method returns the session as it is when the call ends, and the error if it raised.\<close>

definition unsubtract :: "session \<Rightarrow> session \<times> error option" where
  "unsubtract s =
     (if subtracted s then
        (case iadd (Spectrum_data s) (basespec s) of
           Inl e \<Rightarrow> (s, Some e)
         | Inr d \<Rightarrow> (s\<lparr>Spectrum_data := d, subtracted := False\<rparr>, None))
      else (s\<lparr>stdout := stdout s @ [not_subtracted_message]\<rparr>, None))"

definition crop :: "session \<Rightarrow> int \<Rightarrow> int \<Rightarrow> session \<times> error option" where
  "crop s x1pix x2pix =
     (case nd_getslice (basespec s) (Some x1pix) (Some x2pix) of
        Inl e \<Rightarrow> (s, Some e)
      | Inr c \<Rightarrow>
          (s\<lparr>basespec := c,
             excludemask := getslice (excludemask s) (Some x1pix) (Some x2pix),
             OKmask := getslice (OKmask s) (Some x1pix) (Some x2pix)\<rparr>, None))"

definition downsample :: "session \<Rightarrow> int \<Rightarrow> session \<times> error option" where
  "downsample s factor =
     (case nd_getstride (basespec s) factor of
        Inl e \<Rightarrow> (s, Some e)
      | Inr c \<Rightarrow>
          (case getstride (excludemask s) factor of
             Inl e \<Rightarrow> (s\<lparr>basespec := c\<rparr>, Some e)
           | Inr m \<Rightarrow>
               (case getstride (OKmask s) factor of
                  Inl e \<Rightarrow> (s\<lparr>basespec := c, excludemask := m\<rparr>, Some e)
                | Inr k \<Rightarrow> (s\<lparr>basespec := c, excludemask := m, OKmask := k\<rparr>, None))))"

subsection \<open>\<open>_baseline\<close> (here \<open>p_baseline\<close>): weights, guess, minimiser, curve\<close>

text \<open>The keyword arguments \<open>xmin\<close> and \<open>xmax\<close>: the string \<open>'default'\<close>, \<open>None\<close>, or a number.\<close>

datatype bound = Default | NoBound | Bound int

text \<open>
  \<open>dofit\<close> is the only caller, and it always passes \<open>exclude=None\<close> and a mask array, so
  the default bounds are the whole series: the branch that drops the first and last tenth
  needs \<open>mask is None\<close>. A NaN among the samples makes the source print a message and
  open the debugger; the series to fit is a list of real numbers, which have no NaN,
  and that branch has no counterpart here.
\<close>

definition xmin_of :: "bound \<Rightarrow> int" where
  "xmin_of b = (case b of Default \<Rightarrow> 0 | NoBound \<Rightarrow> 0 | Bound i \<Rightarrow> i)"

definition xmax_of :: "nat \<Rightarrow> bound \<Rightarrow> int" where
  "xmax_of n b = (case b of Default \<Rightarrow> int n | NoBound \<Rightarrow> int n | Bound i \<Rightarrow> i)"

definition large_error :: real where
  "large_error = 10000000000"

text \<open>The copy of the uncertainties, or ones; a zero uncertainty is replaced.\<close>

definition fit_weights :: "real list option \<Rightarrow> nat \<Rightarrow> bool \<Rightarrow> real list" where
  "fit_weights err n zeroerr_is_OK =
     (case err of
        None \<Rightarrow> replicate n 1
      | Some e \<Rightarrow> map (\<lambda>x. if x = 0 then (if zeroerr_is_OK then 1 else large_error) else x) e)"

text \<open>The residual functions handed to the minimiser, over the selected samples.\<close>

definition poly_residual :: "real list \<Rightarrow> real list \<Rightarrow> real list \<Rightarrow> real list \<Rightarrow> real list" where
  "poly_residual xs ds es p =
     map (\<lambda>(x, d, e). (poly1d p x - d) / e) (zip xs (zip ds es))"

definition powerlaw_residual :: "real list \<Rightarrow> real list \<Rightarrow> real list \<Rightarrow> real list \<Rightarrow> real list" where
  "powerlaw_residual xs ds es p =
     map (\<lambda>(x, d, e). (log 10 d - log 10 (p ! 0) + (p ! 1) * log 10 (x / (p ! 2))) / (e / d))
       (zip xs (zip ds es))"

text \<open>\<open>p[0]*(x/p[2])**(-p[1])\<close> over the whole coordinate array.\<close>

definition powerlaw_curve :: "real list \<Rightarrow> real list \<Rightarrow> error + fvalue list" where
  "powerlaw_curve p xs =
     (if length p < 3 then Inl IndexError
      else Inr (map (\<lambda>x. fscale (p ! 0) (fpow (fdiv x (p ! 2)) (- (p ! 1)))) xs))"

text \<open>\<open>np.poly1d(p)(x)\<close> over the whole coordinate array: numbers throughout.\<close>

definition poly_curve :: "real list \<Rightarrow> real list \<Rightarrow> fvalue list" where
  "poly_curve p xs = map (\<lambda>x. Num (poly1d p x)) xs"

text \<open>The initial guess and the residual function, from the unmasked samples.\<close>

definition fit_problem ::
  "bool \<Rightarrow> int option \<Rightarrow> real list \<Rightarrow> real list \<Rightarrow> real list \<Rightarrow> bool list
     \<Rightarrow> error + ((real list \<Rightarrow> real list) \<times> real list)" where
  "fit_problem pl ord spectrum err xarrconv OK =
     (if pl then
        (case mask_select spectrum OK of
           Inl e \<Rightarrow> Inl e
         | Inr ds \<Rightarrow>
             (case mask_select xarrconv OK of
                Inl e \<Rightarrow> Inl e
              | Inr [] \<Rightarrow> Inl IndexError
              | Inr (x0 # r) \<Rightarrow>
                  (case mask_select err OK of
                     Inl e \<Rightarrow> Inl e
                   | Inr es \<Rightarrow>
                       Inr (powerlaw_residual (x0 # r) ds es, [median ds, 2, x0 - 1]))))
      else
        (case ord of
           None \<Rightarrow> Inl TypeError
         | Some k \<Rightarrow>
             (case mask_select spectrum OK of
                Inl e \<Rightarrow> Inl e
              | Inr ds \<Rightarrow>
                  (case mask_select err OK of
                     Inl e \<Rightarrow> Inl e
                   | Inr es \<Rightarrow>
                       (case mask_select xarrconv OK of
                          Inl e \<Rightarrow> Inl e
                        | Inr xs \<Rightarrow>
                            Inr (poly_residual xs ds es, replicate (nat (k + 1)) 0))))))"

text \<open>The samples that take part: not masked, and inside \<open>[xmin, xmax)\<close>.\<close>

definition fit_OK :: "bool list \<Rightarrow> int \<Rightarrow> int \<Rightarrow> bool list" where
  "fit_OK msk lo hi =
     setslice (setslice (map Not msk) None (Some lo) False) (Some hi) None False"

text \<open>
  Everything \<open>_baseline\<close> does before it calls the minimiser: the weights, the selection
  \<open>OK\<close>, the converted coordinates, the guess and the residual function.
\<close>

definition fit_prepare ::
  "(real list \<Rightarrow> string \<Rightarrow> real list) \<Rightarrow> real list \<Rightarrow> real list \<Rightarrow> real list option
     \<Rightarrow> bound \<Rightarrow> bound \<Rightarrow> int option \<Rightarrow> bool list \<Rightarrow> bool \<Rightarrow> string \<Rightarrow> bool
     \<Rightarrow> error + ((real list \<Rightarrow> real list) \<times> real list \<times> real list)" where
  "fit_prepare conv spectrum xarr err xmin xmax ord msk pl units zeroerr_is_OK =
     (let n = length spectrum; lo = xmin_of xmin; hi = xmax_of n xmax;
          err1 = setslice (setslice (fit_weights err n zeroerr_is_OK) None (Some lo) large_error)
                   (Some hi) None large_error
      in case mask_assign err1 msk large_error of
           Inl e \<Rightarrow> Inl e
         | Inr err2 \<Rightarrow>
             (let OK = fit_OK msk lo hi; xarrconv = conv xarr units
              in case fit_problem pl ord spectrum err2 xarrconv OK of
                   Inl e \<Rightarrow> Inl e
                 | Inr (f, pguess) \<Rightarrow> Inr (f, pguess, xarrconv)))"

text \<open>
  Everything after the minimiser has returned: the test of the statistic, and the curve
  over the whole coordinate array.
\<close>

definition fit_conclude :: "mp_result \<Rightarrow> bool \<Rightarrow> real list \<Rightarrow> error + (ndarray \<times> real list)" where
  "fit_conclude mp pl xarrconv =
     (if isnan (mp_fnorm mp) then Inl ChiSquaredNaN
      else (let fitp = mp_params mp
            in if pl then
                 (case powerlaw_curve fitp xarrconv of
                    Inl e \<Rightarrow> Inl e
                  | Inr c \<Rightarrow> Inr (squeeze c, fitp))
               else Inr (squeeze (poly_curve fitp xarrconv), fitp)))"

definition p_baseline ::
  "collaborators \<Rightarrow> real list \<Rightarrow> real list \<Rightarrow> real list option \<Rightarrow> bound \<Rightarrow> bound
     \<Rightarrow> int option \<Rightarrow> bool list \<Rightarrow> bool \<Rightarrow> string \<Rightarrow> bool \<Rightarrow> error + (ndarray \<times> real list)" where
  "p_baseline C spectrum xarr err xmin xmax ord msk pl units zeroerr_is_OK =
     (case fit_prepare (as_unit C) spectrum xarr err xmin xmax ord msk pl units zeroerr_is_OK of
        Inl e \<Rightarrow> Inl e
      | Inr (f, pguess, xarrconv) \<Rightarrow> fit_conclude (mpfit C f pguess) pl xarrconv)"

subsection \<open>\<open>dofit\<close>\<close>

record dofit_args =
  arg_exclude :: "endpoints option"
  arg_excludeunits :: string
  arg_include :: "endpoints option"
  arg_includeunits :: string
  arg_subtract :: bool
  arg_fit_original :: bool
  arg_powerlaw :: bool
  arg_xarr_fit_units :: string
  arg_xmin :: bound
  arg_xmax :: bound
  arg_zeroerr_is_OK :: bool

definition default_args :: dofit_args where
  "default_args =
     \<lparr>arg_exclude = None, arg_excludeunits = ''velo'', arg_include = None,
      arg_includeunits = ''velo'', arg_subtract = True, arg_fit_original = False,
      arg_powerlaw = False, arg_xarr_fit_units = ''pixels'', arg_xmin = Default,
      arg_xmax = Default, arg_zeroerr_is_OK = True\<rparr>"

definition velo_units :: "string list" where
  "velo_units = [''velo'', ''km/s'', ''wavelength'', ''frequency'', ''xarr'']"

definition pix_units :: "string list" where
  "pix_units = [''pix'', ''pixel'', ''chan'', ''channel'']"

text \<open>\<open>np.argmin(abs(self.Spectrum.xarr - v))\<close>\<close>

definition x_to_pix :: "real list \<Rightarrow> real \<Rightarrow> error + int" where
  "x_to_pix xarr v = argmin (map (\<lambda>x. \<bar>x - v\<bar>) xarr)"

text \<open>
  The body shared by the four loops: order the two bounds, set the slice of the mask
  (to \<open>False\<close> for an inclusion, to \<open>True\<close> for an exclusion), append the bounds.
\<close>

definition mark_pair :: "bool \<Rightarrow> int \<Rightarrow> int \<Rightarrow> session \<Rightarrow> session" where
  "mark_pair incl xl xu s =
     (let l = (if xl > xu then xu else xl); u = (if xl > xu then xl else xu)
      in if incl then
           s\<lparr>excludemask := setslice (excludemask s) (Some l) (Some u) False,
             includepix := Some ((case includepix s of None \<Rightarrow> [] | Some ip \<Rightarrow> ip) @ [l, u])\<rparr>
         else
           s\<lparr>excludemask := setslice (excludemask s) (Some l) (Some u) True,
             excludepix := excludepix s @ [l, u]\<rparr>)"

fun velo_loop :: "bool \<Rightarrow> (real \<times> real) list \<Rightarrow> session \<Rightarrow> session \<times> error option" where
  "velo_loop incl [] s = (s, None)"
| "velo_loop incl ((vl, vu) # ps) s =
     (case x_to_pix (Spectrum_xarr s) vl of
        Inl e \<Rightarrow> (s, Some e)
      | Inr xl \<Rightarrow>
          (case x_to_pix (Spectrum_xarr s) vu of
             Inl e \<Rightarrow> (s, Some e)
           | Inr xu \<Rightarrow> velo_loop incl ps (mark_pair incl xl xu s)))"

fun pix_loop :: "bool \<Rightarrow> (int \<times> int) list \<Rightarrow> session \<Rightarrow> session" where
  "pix_loop incl [] s = s"
| "pix_loop incl ((xl, xu) # ps) s = pix_loop incl ps (mark_pair incl xl xu s)"

text \<open>
  In pixel units the bounds are slice bounds: a list of floats raises \<open>TypeError\<close> at the
  first slice, after the two bounds have been compared.
\<close>

definition pix_intervals :: "bool \<Rightarrow> endpoints \<Rightarrow> session \<Rightarrow> session \<times> error option" where
  "pix_intervals incl l s =
     (case l of
        Pixels ks \<Rightarrow> (pix_loop incl (pairs ks) s, None)
      | Coords xs \<Rightarrow> (if pairs xs = [] then (s, None) else (s, Some TypeError)))"

text \<open>Lines 130 to 151: the inclusion intervals.\<close>

definition dofit_include :: "dofit_args \<Rightarrow> session \<Rightarrow> session \<times> error option" where
  "dofit_include args s =
     (case arg_include args of
        None \<Rightarrow> (s\<lparr>includepix := Some [], includevelo := Coords []\<rparr>, None)
      | Some l \<Rightarrow>
          if arg_includeunits args \<in> set velo_units then
            (let s1 = s\<lparr>excludemask := map (\<lambda>b. True) (excludemask s)\<rparr>
             in if even (endpoints_len l) then
                  velo_loop True (pairs (endpoints_values l))
                    (s1\<lparr>includevelo := l, includepix := Some []\<rparr>)
                else (s1, None))
          else if arg_includeunits args \<in> set pix_units then
            (let s1 = s\<lparr>excludemask := map (\<lambda>b. True) (excludemask s)\<rparr>
             in if even (endpoints_len l) then
                  pix_intervals True l (s1\<lparr>includepix := Some []\<rparr>)
                else (s1, None))
          else (s\<lparr>includepix := Some [], includevelo := Coords []\<rparr>, None))"

text \<open>Lines 153 to 157: the window against the inclusion bounds.\<close>

definition dofit_window :: "session \<Rightarrow> session \<times> error option" where
  "dofit_window s =
     (case includepix s of
        None \<Rightarrow> (s, Some AttributeError)
      | Some [] \<Rightarrow> (s, None)
      | Some (x # r) \<Rightarrow>
          (let lo = fold min r x; hi = fold max r x;
               s1 = (if bx1 s < lo then s\<lparr>bx1 := lo\<rparr> else s);
               s2 = (if bx2 s1 > hi then s1\<lparr>bx2 := hi\<rparr> else s1)
           in (s2, None)))"

text \<open>Lines 159 to 178: the exclusion intervals.\<close>

definition dofit_exclude :: "dofit_args \<Rightarrow> session \<Rightarrow> session \<times> error option" where
  "dofit_exclude args s =
     (case arg_exclude args of
        None \<Rightarrow> (s\<lparr>excludepix := [], excludevelo := Coords []\<rparr>, None)
      | Some l \<Rightarrow>
          if arg_excludeunits args \<in> set velo_units then
            (if even (endpoints_len l) then
               velo_loop False (pairs (endpoints_values l))
                 (s\<lparr>excludevelo := l, excludepix := []\<rparr>)
             else (s, None))
          else if arg_excludeunits args \<in> set pix_units then
            (if even (endpoints_len l) then
               pix_intervals False l (s\<lparr>excludepix := []\<rparr>)
             else (s, None))
          else (s\<lparr>excludepix := [], excludevelo := Coords []\<rparr>, None))"

text \<open>Lines 130 to 178 together.\<close>

definition dofit_regions :: "dofit_args \<Rightarrow> session \<Rightarrow> session \<times> error option" where
  "dofit_regions args s =
     (case dofit_include args s of
        (s1, Some e) \<Rightarrow> (s1, Some e)
      | (s1, None) \<Rightarrow>
          (case dofit_window s1 of
             (s2, Some e) \<Rightarrow> (s2, Some e)
           | (s2, None) \<Rightarrow> dofit_exclude args s2))"

text \<open>Lines 183 to 185, and the mask of line 199.\<close>

definition OK_edges :: "session \<Rightarrow> bool list" where
  "OK_edges s =
     setslice (setslice (map (\<lambda>b. True) (OKmask s)) None (Some (bx1 s)) False)
       (Some (bx2 s)) None False"

definition fit_mask :: "session \<Rightarrow> error + bool list" where
  "fit_mask s =
     (case broadcast2 (\<or>) (map Not (OKmask s)) (excludemask s) of
        Inl e \<Rightarrow> Inl e
      | Inr m \<Rightarrow> broadcast2 (\<or>) m (map Not (OK_edges s)))"

text \<open>Lines 212 to 222.\<close>

definition dofit_subtract :: "dofit_args \<Rightarrow> session \<Rightarrow> session \<times> error option" where
  "dofit_subtract args s =
     (if arg_subtract args then
        (if subtracted s \<and> arg_fit_original args then
           (case spectofit s of
              None \<Rightarrow> (s, Some AttributeError)
            | Some stf \<Rightarrow>
                (case nd_sub stf (basespec s) of
                   Inl e \<Rightarrow> (s, Some e)
                 | Inr d \<Rightarrow> (s\<lparr>Spectrum_data := d, subtracted := True\<rparr>, None)))
         else
           (case isub (Spectrum_data s) (basespec s) of
              Inl e \<Rightarrow> (s, Some e)
            | Inr d \<Rightarrow> (s\<lparr>Spectrum_data := d, subtracted := True\<rparr>, None)))
      else
        (case (if subtracted s then unsubtract s else (s, None)) of
           (s1, Some e) \<Rightarrow> (s1, Some e)
         | (s1, None) \<Rightarrow> (s1\<lparr>subtracted := False\<rparr>, None)))"

text \<open>Lines 204 to 222: the full curve from the parameters, then the subtraction.\<close>

definition dofit_finish ::
  "collaborators \<Rightarrow> dofit_args \<Rightarrow> real list \<Rightarrow> session \<Rightarrow> session \<times> error option" where
  "dofit_finish C args fitp s =
     (let xc = as_unit C (Spectrum_xarr s) (arg_xarr_fit_units args)
      in if arg_powerlaw args then
           (case powerlaw_curve fitp xc of
              Inl e \<Rightarrow> (s\<lparr>powerlaw := True\<rparr>, Some e)
            | Inr c \<Rightarrow> dofit_subtract args (s\<lparr>powerlaw := True, basespec := squeeze c\<rparr>))
         else
           dofit_subtract args
             (s\<lparr>powerlaw := False, basespec := Array1 (poly_curve fitp xc)\<rparr>))"

text \<open>Lines 191 to 222: undo an earlier subtraction, fit, store, subtract.\<close>

definition dofit_fit :: "collaborators \<Rightarrow> dofit_args \<Rightarrow> session \<Rightarrow> session \<times> error option" where
  "dofit_fit C args s =
     (case (if subtracted s then unsubtract s else (s, None)) of
        (s1, Some e) \<Rightarrow> (s1, Some e)
      | (s1, None) \<Rightarrow>
          (case spectofit s1 of
             None \<Rightarrow> (s1, Some AttributeError)
           | Some stf \<Rightarrow>
               (case fit_mask s1 of
                  Inl e \<Rightarrow> (s1, Some e)
                | Inr msk \<Rightarrow>
                    (case p_baseline C stf (Spectrum_xarr s1) (Spectrum_error s1)
                            (arg_xmin args) (arg_xmax args) (order s1) msk
                            (arg_powerlaw args) (arg_xarr_fit_units args)
                            (arg_zeroerr_is_OK args) of
                       Inl e \<Rightarrow> (s1, Some e)
                     | Inr (bestfit, fitp) \<Rightarrow>
                         dofit_finish C args fitp
                           (s1\<lparr>basespec := bestfit, baselinepars := Some fitp\<rparr>)))))"

definition dofit :: "collaborators \<Rightarrow> dofit_args \<Rightarrow> session \<Rightarrow> session \<times> error option" where
  "dofit C args s =
     (case dofit_regions args s of
        (s1, Some e) \<Rightarrow> (s1, Some e)
      | (s1, None) \<Rightarrow> dofit_fit C args s1)"

subsection \<open>Notions used by the properties\<close>

text \<open>\<open>len(curve)\<close>, which a zero-dimensional array does not have.\<close>

definition nd_length :: "ndarray \<Rightarrow> nat option" where
  "nd_length c = (case c of Array0 v \<Rightarrow> None | Array1 ys \<Rightarrow> Some (length ys))"

text \<open>The stored curve and the two masks have one length.\<close>

definition lockstep :: "session \<Rightarrow> bool" where
  "lockstep s =
     (nd_length (basespec s) = Some (length (excludemask s))
      \<and> length (OKmask s) = length (excludemask s))"

text \<open>The model evaluated at every coordinate, as both \<open>_baseline\<close> and \<open>dofit\<close> do.\<close>

definition full_curve :: "bool \<Rightarrow> real list \<Rightarrow> real list \<Rightarrow> fvalue list" where
  "full_curve pl fitp xs =
     (if pl then map (\<lambda>x. fscale (fitp ! 0) (fpow (fdiv x (fitp ! 2)) (- (fitp ! 1)))) xs
      else map (\<lambda>x. Num (poly1d fitp x)) xs)"


text \<open>
  What the selection of regions never touches: the fit result, the validity mask, the
  subtraction flag, the series to fit, the host spectrum and the output.
\<close>

definition same_fit_state :: "session \<Rightarrow> session \<Rightarrow> bool" where
  "same_fit_state s s' =
     (baselinepars s' = baselinepars s \<and> order s' = order s \<and> basespec s' = basespec s
      \<and> OKmask s' = OKmask s \<and> subtracted s' = subtracted s \<and> powerlaw s' = powerlaw s
      \<and> spectofit s' = spectofit s \<and> Spectrum_data s' = Spectrum_data s
      \<and> Spectrum_xarr s' = Spectrum_xarr s \<and> Spectrum_error s' = Spectrum_error s
      \<and> stdout s' = stdout s)"

subsection \<open>Concrete sessions and collaborators\<close>

text \<open>
  A minimiser that reports a fixed result, with coordinates that need no conversion.
\<close>

definition fixed_fit :: "mp_result \<Rightarrow> collaborators" where
  "fixed_fit r = \<lparr>mpfit = (\<lambda>f p. r), as_unit = (\<lambda>xs u. xs)\<rparr>"

text \<open>
  A series of four samples as \<open>__call__\<close> leaves it before \<open>dofit\<close>: the order is set, the
  series to fit is a copy of the data, the window is the whole series.
\<close>

definition session0 :: session where
  "session0 =
     \<lparr>baselinepars = None, order = Some 0, basespec = Array1 [Num 0, Num 0, Num 0, Num 0],
      excludemask = [False, False, False, False], OKmask = [True, True, True, True],
      subtracted = False, bx1 = 0, bx2 = 4, includepix = None,
      includevelo = Coords [0, 3], excludepix = [], excludevelo = Coords [],
      powerlaw = False, spectofit = Some [5, 7, 9, 11], Spectrum_data = [Num 5, Num 7, Num 9, Num 11],
      Spectrum_xarr = [0, 1, 2, 3], Spectrum_error = None, stdout = []\<rparr>"

text \<open>The same series with a constant curve of height one already subtracted.\<close>

definition session_sub :: session where
  "session_sub =
     session0\<lparr>baselinepars := Some [1], basespec := Array1 [Num 1, Num 1, Num 1, Num 1], subtracted := True,
       includepix := Some [], Spectrum_data := [Num 4, Num 6, Num 8, Num 10]\<rparr>"

text \<open>Calls of \<open>dofit\<close> with interval lists in pixel and in coordinate units.\<close>

definition include_pix_args :: dofit_args where
  "include_pix_args =
     default_args\<lparr>arg_include := Some (Pixels [1, 3]), arg_includeunits := ''pix''\<rparr>"

definition exclude_pix_args :: dofit_args where
  "exclude_pix_args =
     default_args\<lparr>arg_exclude := Some (Pixels [0, 3]), arg_excludeunits := ''pix'',
       arg_include := Some (Pixels [0, 4]), arg_includeunits := ''pix''\<rparr>"

definition exclude_velo_args :: dofit_args where
  "exclude_velo_args =
     default_args\<lparr>arg_exclude := Some (Coords [29/10, 1/10]),
       arg_include := Some (Coords [0, 3])\<rparr>"

definition odd_include_args :: dofit_args where
  "odd_include_args =
     default_args\<lparr>arg_include := Some (Pixels [1, 3, 2]), arg_includeunits := ''pix''\<rparr>"

definition odd_exclude_args :: dofit_args where
  "odd_exclude_args =
     default_args\<lparr>arg_exclude := Some (Pixels [1, 3, 2]), arg_excludeunits := ''pix''\<rparr>"

text \<open>
  The four-sample series with the window \<open>[1, 4)\<close> and a straight line to fit, and a call
  that excludes the last sample: the fit sees the samples 1 and 2 only.
\<close>

definition session_edge :: session where
  "session_edge = session0\<lparr>order := Some 1, bx1 := 1\<rparr>"

definition exclude_last_args :: dofit_args where
  "exclude_last_args =
     default_args\<lparr>arg_exclude := Some (Pixels [3, 4]), arg_excludeunits := ''pix''\<rparr>"





section \<open>Properties\<close>

subsection \<open>Evaluation on concrete sessions\<close>

lemmas eval_defs =
  dofit_def dofit_regions_def dofit_include_def dofit_window_def dofit_exclude_def
  dofit_fit_def dofit_finish_def dofit_subtract_def unsubtract_def fit_mask_def OK_edges_def
  p_baseline_def fit_prepare_def fit_conclude_def fit_problem_def fit_OK_def fit_weights_def
  xmin_of_def xmax_of_def setslice_def slice_lo_def slice_hi_def slice_index_def
  mask_assign_def mask_select_def broadcast2_def broadcast_inplace_def iadd_def isub_def
  nd_sub_def squeeze_def poly1d_def poly_curve_def fsub_def fdiv_def isnan_def fixed_fit_def
  default_args_def session0_def session_sub_def Let_def

lemmas region_defs =
  pix_intervals_def mark_pair_def endpoints_len_def endpoints_values_def velo_units_def
  pix_units_def x_to_pix_def argmin_def


subsection \<open>Slice assignment\<close>

lemma length_setrange [simp]: "length (setrange k lo hi v xs) = length xs"
  by (induction xs arbitrary: k) auto

lemma length_setslice [simp]: "length (setslice xs a b v) = length xs"
  by (simp add: setslice_def)

lemma nth_setrange:
  "i < length xs \<Longrightarrow>
     setrange k lo hi v xs ! i = (if lo \<le> k + i \<and> k + i < hi then v else xs ! i)"
proof (induction xs arbitrary: k i)
  case Nil
  then show ?case by simp
next
  case (Cons x xs)
  then show ?case by (cases i) auto
qed

lemma nth_setslice:
  "i < length xs \<Longrightarrow>
     setslice xs (Some a) (Some b) v ! i
       = (if slice_index (length xs) a \<le> i \<and> i < slice_index (length xs) b then v
          else xs ! i)"
  by (simp add: setslice_def nth_setrange slice_lo_def slice_hi_def)

lemma strictly_inside_slice:
  "0 \<le> l \<Longrightarrow> l < int i \<Longrightarrow> int i < u \<Longrightarrow> i < n \<Longrightarrow>
     slice_index n l \<le> i \<and> i < slice_index n u"
  by (auto simp: slice_index_def)


subsection \<open>The selection of regions leaves the fit state alone\<close>

lemma same_fit_state_refl [simp]: "same_fit_state s s"
  by (simp add: same_fit_state_def)

lemma same_fit_state_trans:
  "same_fit_state s s1 \<Longrightarrow> same_fit_state s1 s2 \<Longrightarrow> same_fit_state s s2"
  by (simp add: same_fit_state_def)

lemma mark_pair_frame: "same_fit_state s (mark_pair incl xl xu s)"
  by (simp add: same_fit_state_def mark_pair_def Let_def)

lemma pix_loop_frame: "same_fit_state s (pix_loop incl ps s)"
proof (induction ps arbitrary: s)
  case Nil
  then show ?case by simp
next
  case (Cons p ps)
  obtain xl xu where p: "p = (xl, xu)" by (cases p)
  show ?case
    using Cons [of "mark_pair incl xl xu s"] mark_pair_frame [of s incl xl xu]
    by (auto simp: p intro: same_fit_state_trans)
qed

lemma velo_loop_frame:
  "velo_loop incl ps s = (s', e) \<Longrightarrow> same_fit_state s s'"
proof (induction ps arbitrary: s)
  case Nil
  then show ?case by simp
next
  case (Cons p ps)
  obtain vl vu where p: "p = (vl, vu)" by (cases p)
  show ?case
    using Cons.prems Cons.IH mark_pair_frame [of s incl]
    by (auto simp: p split: sum.splits intro: same_fit_state_trans)
qed

lemma velo_loop_error:
  "velo_loop incl ps s = (s', Some e) \<Longrightarrow> e = EmptyArgmin"
proof (induction ps arbitrary: s)
  case Nil
  then show ?case by simp
next
  case (Cons p ps)
  obtain vl vu where p: "p = (vl, vu)" by (cases p)
  show ?case
    using Cons.prems Cons.IH
    by (auto simp: p x_to_pix_def argmin_def split: sum.splits list.splits)
qed

lemma pix_intervals_frame:
  "pix_intervals incl l s = (s', e) \<Longrightarrow> same_fit_state s s'"
  using pix_loop_frame by (auto simp: pix_intervals_def split: endpoints.splits if_splits)

lemma pix_intervals_error:
  "pix_intervals incl l s = (s', Some e) \<Longrightarrow> e = TypeError"
  by (auto simp: pix_intervals_def split: endpoints.splits if_splits)

lemma dofit_include_frame:
  "dofit_include args s = (s', e) \<Longrightarrow> same_fit_state s s'"
  by (auto simp: dofit_include_def Let_def same_fit_state_def
      split: option.splits if_splits
      dest!: velo_loop_frame pix_intervals_frame)

lemma dofit_include_error:
  "dofit_include args s = (s', Some e) \<Longrightarrow> e = EmptyArgmin \<or> e = TypeError"
  by (auto simp: dofit_include_def Let_def split: option.splits if_splits
      dest: velo_loop_error pix_intervals_error)

lemma dofit_window_frame:
  "dofit_window s = (s', e) \<Longrightarrow> same_fit_state s s'"
  by (auto simp: dofit_window_def Let_def same_fit_state_def
      split: option.splits list.splits if_splits)

lemma dofit_window_error:
  "dofit_window s = (s', Some e) \<Longrightarrow> e = AttributeError"
  by (auto simp: dofit_window_def Let_def split: option.splits list.splits if_splits)

lemma dofit_exclude_frame:
  "dofit_exclude args s = (s', e) \<Longrightarrow> same_fit_state s s'"
  by (auto simp: dofit_exclude_def Let_def same_fit_state_def
      split: option.splits if_splits
      dest!: velo_loop_frame pix_intervals_frame)

lemma dofit_exclude_error:
  "dofit_exclude args s = (s', Some e) \<Longrightarrow> e = EmptyArgmin \<or> e = TypeError"
  by (auto simp: dofit_exclude_def Let_def split: option.splits if_splits
      dest: velo_loop_error pix_intervals_error)

lemma dofit_regions_frame:
  "dofit_regions args s = (s', e) \<Longrightarrow> same_fit_state s s'"
  by (auto simp: dofit_regions_def split: prod.splits option.splits
      dest!: dofit_include_frame dofit_window_frame dofit_exclude_frame
      intro: same_fit_state_trans)

lemma dofit_regions_error:
  "dofit_regions args s = (s', Some e) \<Longrightarrow> e \<noteq> ChiSquaredNaN"
  by (auto simp: dofit_regions_def split: prod.splits option.splits
      dest: dofit_include_error dofit_window_error dofit_exclude_error)


subsection \<open>The window against the inclusion bounds\<close>

lemma dofit_window_narrows:
  "dofit_window s = (s', e) \<Longrightarrow> bx1 s \<le> bx1 s' \<and> bx2 s' \<le> bx2 s"
  by (auto simp: dofit_window_def Let_def split: option.splits list.splits if_splits)


text \<open>
  Claim C3. The claim says that a non-empty inclusion widens the window to the union of
  its bounds and the inclusion bounds. The code does the opposite: it raises \<open>bx1\<close> to
  the least inclusion bound and lowers \<open>bx2\<close> to the greatest one (the lemma above), so
  the window can only become narrower. On the four-sample series with the window
  \<open>[0, 4)\<close>, the inclusion \<open>[1, 3]\<close> in pixel units leaves the window \<open>[1, 3)\<close>.
\<close>

theorem inclusion_narrows_window_example:
  "bx1 session0 = 0 \<and> bx2 session0 = 4
   \<and> snd (dofit_regions include_pix_args session0) = None
   \<and> bx1 (fst (dofit_regions include_pix_args session0)) = 1
   \<and> bx2 (fst (dofit_regions include_pix_args session0)) = 3"
  by (simp add: eval_defs region_defs include_pix_args_def)


subsection \<open>Exclusion intervals\<close>

lemma excludemask_mark_pair_False:
  "excludemask (mark_pair False xl xu s)
     = setslice (excludemask s) (Some (min xl xu)) (Some (max xl xu)) True"
  by (auto simp: mark_pair_def Let_def min_def max_def)

lemma mark_pair_False_keeps:
  "i < length (excludemask s) \<Longrightarrow> excludemask s ! i \<Longrightarrow>
     excludemask (mark_pair False xl xu s) ! i"
  by (simp add: excludemask_mark_pair_False nth_setslice)

lemma mark_pair_length [simp]:
  "length (excludemask (mark_pair incl xl xu s)) = length (excludemask s)"
  by (simp add: mark_pair_def Let_def)

lemma mark_pair_False_sets:
  "i < length (excludemask s) \<Longrightarrow> 0 \<le> min xl xu \<Longrightarrow> min xl xu < int i \<Longrightarrow>
     int i < max xl xu \<Longrightarrow> excludemask (mark_pair False xl xu s) ! i"
  using strictly_inside_slice [of "min xl xu" i "max xl xu" "length (excludemask s)"]
  by (simp add: excludemask_mark_pair_False nth_setslice)

lemma pix_loop_length [simp]:
  "length (excludemask (pix_loop incl ps s)) = length (excludemask s)"
  by (induction ps arbitrary: s) auto

lemma pix_loop_False_keeps:
  "i < length (excludemask s) \<Longrightarrow> excludemask s ! i \<Longrightarrow>
     excludemask (pix_loop False ps s) ! i"
proof (induction ps arbitrary: s)
  case Nil
  then show ?case by simp
next
  case (Cons p ps)
  obtain xl xu where p: "p = (xl, xu)" by (cases p)
  show ?case
    using Cons.prems Cons.IH [of "mark_pair False xl xu s"]
    by (simp add: p mark_pair_False_keeps)
qed

lemma pix_loop_False_sets:
  assumes "(a, b) \<in> set ps" and "i < length (excludemask s)"
    and "0 \<le> min a b" and "min a b < int i" and "int i < max a b"
  shows "excludemask (pix_loop False ps s) ! i"
  using assms
proof (induction ps arbitrary: s)
  case Nil
  then show ?case by simp
next
  case (Cons p ps)
  obtain xl xu where p: "p = (xl, xu)" by (cases p)
  show ?case
  proof (cases "(a, b) = p")
    case True
    then have "excludemask (mark_pair False xl xu s) ! i"
      using Cons.prems p by (auto intro: mark_pair_False_sets)
    then show ?thesis
      using Cons.prems(2) by (simp add: p pix_loop_False_keeps)
  next
    case False
    then have "(a, b) \<in> set ps" using Cons.prems(1) by simp
    then show ?thesis
      using Cons.IH [of "mark_pair False xl xu s"] Cons.prems by (simp add: p)
  qed
qed

lemma velo_loop_length:
  "velo_loop incl ps s = (s', e) \<Longrightarrow> length (excludemask s') = length (excludemask s)"
proof (induction ps arbitrary: s)
  case Nil
  then show ?case by simp
next
  case (Cons p ps)
  obtain vl vu where p: "p = (vl, vu)" by (cases p)
  show ?case
    using Cons.prems Cons.IH by (auto simp: p split: sum.splits)
qed

lemma mark_pair_xarr [simp]: "Spectrum_xarr (mark_pair incl xl xu s) = Spectrum_xarr s"
  by (simp add: mark_pair_def Let_def)

lemma velo_loop_False_keeps:
  "velo_loop False ps s = (s', e) \<Longrightarrow> i < length (excludemask s) \<Longrightarrow> excludemask s ! i \<Longrightarrow>
     excludemask s' ! i"
proof (induction ps arbitrary: s)
  case Nil
  then show ?case by simp
next
  case (Cons p ps)
  obtain vl vu where p: "p = (vl, vu)" by (cases p)
  show ?case
    using Cons.prems Cons.IH
    by (auto simp: p mark_pair_False_keeps split: sum.splits)
qed

lemma velo_loop_False_sets:
  assumes "velo_loop False ps s = (s', None)" and "(vl, vu) \<in> set ps"
    and "x_to_pix (Spectrum_xarr s) vl = Inr xl" and "x_to_pix (Spectrum_xarr s) vu = Inr xu"
    and "i < length (excludemask s)"
    and "0 \<le> min xl xu" and "min xl xu < int i" and "int i < max xl xu"
  shows "excludemask s' ! i"
  using assms
proof (induction ps arbitrary: s)
  case Nil
  then show ?case by simp
next
  case (Cons p ps)
  obtain wl wu where p: "p = (wl, wu)" by (cases p)
  from Cons.prems(1) p obtain yl yu where
    yl: "x_to_pix (Spectrum_xarr s) wl = Inr yl" and yu: "x_to_pix (Spectrum_xarr s) wu = Inr yu"
    and rest: "velo_loop False ps (mark_pair False yl yu s) = (s', None)"
    by (auto split: sum.splits)
  show ?case
  proof (cases "(vl, vu) = p")
    case True
    then have "yl = xl" "yu = xu" using p yl yu Cons.prems(3,4) by auto
    then have "excludemask (mark_pair False yl yu s) ! i"
      using Cons.prems by (auto intro: mark_pair_False_sets)
    then show ?thesis
      using rest Cons.prems(5) velo_loop_False_keeps [OF rest, of i] by simp
  next
    case False
    then have "(vl, vu) \<in> set ps" using Cons.prems(2) by simp
    then show ?thesis
      using Cons.IH [OF rest] Cons.prems by simp
  qed
qed

lemma argmin_nonneg: "argmin xs = Inr k \<Longrightarrow> 0 \<le> k"
  by (auto simp: argmin_def split: list.splits)

lemma x_to_pix_nonneg: "x_to_pix xarr v = Inr k \<Longrightarrow> 0 \<le> k"
  by (auto simp: x_to_pix_def dest: argmin_nonneg)

lemma fit_mask_covers:
  assumes "fit_mask s = Inr m" and "0 < i" and "i < length (excludemask s)"
    and "excludemask s ! i"
  shows "i < length m \<and> m ! i"
proof -
  let ?a = "map Not (OKmask s)" and ?e = "excludemask s" and ?c = "map Not (OK_edges s)"
  have lc: "length ?c = length ?a" by (simp add: OK_edges_def)
  have l2: "length ?e \<noteq> 1" using assms(2,3) by simp
  obtain m1 where m1: "broadcast2 (\<or>) ?a ?e = Inr m1" and m: "broadcast2 (\<or>) m1 ?c = Inr m"
    using assms(1) by (auto simp: fit_mask_def split: sum.splits)
  have 1: "length m1 = length ?e \<and> m1 ! i"
    using m1 l2 assms(3,4) by (auto simp: broadcast2_def split: if_splits)
  have "length m = length ?e \<and> m ! i"
  proof (cases "length ?a = length ?e")
    case True
    with m 1 lc assms(3) show ?thesis by (auto simp: broadcast2_def split: if_splits)
  next
    case False
    with m1 l2 have "length ?a = 1" by (auto simp: broadcast2_def split: if_splits)
    with m 1 lc l2 assms(3) show ?thesis by (auto simp: broadcast2_def split: if_splits)
  qed
  with assms(3) show ?thesis by simp
qed

lemma fit_OK_masked: "i < length m \<Longrightarrow> m ! i \<Longrightarrow> \<not> fit_OK m lo hi ! i"
  by (simp add: fit_OK_def setslice_def nth_setrange)

lemma pix_not_velo: "u \<in> set pix_units \<Longrightarrow> u \<notin> set velo_units"
  by (auto simp: pix_units_def velo_units_def)

lemma dofit_regions_exclude:
  assumes "dofit_regions args s = (s1, None)"
  shows "\<exists>sb. dofit_exclude args sb = (s1, None) \<and> Spectrum_xarr sb = Spectrum_xarr s"
proof -
  obtain sa sb where a: "dofit_include args s = (sa, None)"
    and b: "dofit_window sa = (sb, None)" and c: "dofit_exclude args sb = (s1, None)"
    using assms by (auto simp: dofit_regions_def split: prod.splits option.splits)
  have "same_fit_state s sb"
    using dofit_include_frame [OF a] dofit_window_frame [OF b] by (rule same_fit_state_trans)
  with c show ?thesis by (auto simp: same_fit_state_def)
qed

lemma regions_exclude_pix:
  "dofit_regions exclude_pix_args session0
   = (session0\<lparr>excludemask := [True, True, True, False], includepix := Some [0, 4],
        excludepix := [0, 3]\<rparr>, None)"
  by (simp add: eval_defs region_defs exclude_pix_args_def)

lemma regions_exclude_velo:
  "dofit_regions exclude_velo_args session0
   = (session0\<lparr>excludemask := [True, True, True, True], bx2 := 3, includepix := Some [0, 3],
        excludepix := [0, 3], excludevelo := Coords [29/10, 1/10]\<rparr>, None)"
  by (simp add: eval_defs region_defs exclude_velo_args_def)


text \<open>
  Claim C4. Let the selection of regions of a fit return, with an exclusion list of an
  even number of endpoints in a recognised unit, whatever the inclusion list and the
  window are. Then every index \<open>i\<close> of the exclusion mask that lies strictly between the
  two (ordered) sample indices of an exclusion interval is excluded: in the exclusion
  mask, in the mask handed to \<open>_baseline\<close>, and so in the selection of samples the
  minimiser sees. In pixel units the interval is the given pair of sample indices (none
  negative); in coordinate units it is the pair of nearest samples.
\<close>

theorem exclusion_dominates:
  assumes "dofit_regions args s = (s1, None)"
    and "arg_exclude args = Some l" and "even (endpoints_len l)"
    and "fit_mask s1 = Inr m"
    and "i < length (excludemask s1)"
  shows "(arg_excludeunits args \<in> set pix_units \<longrightarrow>
           (\<forall>ks a b. l = Pixels ks \<and> (a, b) \<in> set (pairs ks)
              \<and> 0 \<le> min a b \<and> min a b < int i \<and> int i < max a b
              \<longrightarrow> excludemask s1 ! i \<and> m ! i \<and> \<not> fit_OK m lo hi ! i))
       \<and> (arg_excludeunits args \<in> set velo_units \<longrightarrow>
           (\<forall>vl vu xl xu. (vl, vu) \<in> set (pairs (endpoints_values l))
              \<and> x_to_pix (Spectrum_xarr s) vl = Inr xl \<and> x_to_pix (Spectrum_xarr s) vu = Inr xu
              \<and> min xl xu < int i \<and> int i < max xl xu
              \<longrightarrow> excludemask s1 ! i \<and> m ! i \<and> \<not> fit_OK m lo hi ! i))"
proof -
  obtain sb where ex: "dofit_exclude args sb = (s1, None)"
    and xa: "Spectrum_xarr sb = Spectrum_xarr s"
    using dofit_regions_exclude [OF assms(1)] by blast
  have fin: "0 < i \<Longrightarrow> excludemask s1 ! i \<Longrightarrow>
               excludemask s1 ! i \<and> m ! i \<and> \<not> fit_OK m lo hi ! i" 
    using fit_mask_covers [OF assms(4) _ assms(5)] fit_OK_masked [of i m lo hi] by blast
  have pix: "excludemask s1 ! i \<and> m ! i \<and> \<not> fit_OK m lo hi ! i"
    if u: "arg_excludeunits args \<in> set pix_units" and l: "l = Pixels ks"
      and ab: "(a, b) \<in> set (pairs ks)"
      and r: "0 \<le> min a b" "min a b < int i" "int i < max a b" for ks a b
  proof -
    have s1: "s1 = pix_loop False (pairs ks) (sb\<lparr>excludepix := []\<rparr>)"
      using ex assms(2,3) u l pix_not_velo [OF u]
      by (auto simp: dofit_exclude_def pix_intervals_def)
    have "excludemask s1 ! i"
      unfolding s1 using ab r assms(5) s1 by (intro pix_loop_False_sets [of a b]) auto
    moreover have "0 < i" using r by linarith
    ultimately show ?thesis using fin by blast
  qed
  have velo: "excludemask s1 ! i \<and> m ! i \<and> \<not> fit_OK m lo hi ! i"
    if u: "arg_excludeunits args \<in> set velo_units"
      and ab: "(vl, vu) \<in> set (pairs (endpoints_values l))"
      and x: "x_to_pix (Spectrum_xarr s) vl = Inr xl" "x_to_pix (Spectrum_xarr s) vu = Inr xu"
      and r: "min xl xu < int i" "int i < max xl xu" for vl vu xl xu
  proof -
    let ?s = "sb\<lparr>excludevelo := l, excludepix := []\<rparr>"
    have lp: "velo_loop False (pairs (endpoints_values l)) ?s = (s1, None)"
      using ex assms(2,3) u by (auto simp: dofit_exclude_def)
    have len: "length (excludemask s1) = length (excludemask ?s)"
      using lp by (rule velo_loop_length)
    have nn: "0 \<le> min xl xu"
      using x_to_pix_nonneg [OF x(1)] x_to_pix_nonneg [OF x(2)] by simp
    have "excludemask s1 ! i"
      using velo_loop_False_sets [OF lp ab, of xl xu i] x xa nn r assms(5) len by simp
    moreover have "0 < i" using r nn by linarith
    ultimately show ?thesis using fin by blast
  qed
  show ?thesis using pix velo by blast
qed

theorem exclusion_dominates_witness:
  "dofit_regions exclude_pix_args session0
     = (session0\<lparr>excludemask := [True, True, True, False], includepix := Some [0, 4],
          excludepix := [0, 3]\<rparr>, None)
   \<and> fit_mask (session0\<lparr>excludemask := [True, True, True, False], includepix := Some [0, 4],
          excludepix := [0, 3]\<rparr>) = Inr [True, True, True, False]
   \<and> [True, True, True, False] ! 1
   \<and> \<not> fit_OK [True, True, True, False] 0 4 ! 1
   \<and> dofit_regions exclude_velo_args session0
     = (session0\<lparr>excludemask := [True, True, True, True], bx2 := 3, includepix := Some [0, 3],
        excludepix := [0, 3], excludevelo := Coords [29/10, 1/10]\<rparr>, None)
   \<and> x_to_pix (Spectrum_xarr session0) (29/10) = Inr 3
   \<and> x_to_pix (Spectrum_xarr session0) (1/10) = Inr 0
   \<and> [True, True, True, True] ! 2"
proof -
  let ?s1 = "session0\<lparr>excludemask := [True, True, True, False], includepix := Some [0, 4],
          excludepix := [0, 3]\<rparr>"
  let ?s2 = "session0\<lparr>excludemask := [True, True, True, True], bx2 := 3,
        includepix := Some [0, 3], excludepix := [0, 3], excludevelo := Coords [29/10, 1/10]\<rparr>"
  have fm1: "fit_mask ?s1 = Inr [True, True, True, False]"
    by (simp add: eval_defs)
  have fm2: "fit_mask ?s2 = Inr [True, True, True, True]"
    by (simp add: eval_defs)
  have x1: "x_to_pix (Spectrum_xarr session0) (29/10) = Inr 3"
    and x2: "x_to_pix (Spectrum_xarr session0) (1/10) = Inr 0"
    by (simp_all add: session0_def x_to_pix_def argmin_def)
  have ep: "arg_exclude exclude_pix_args = Some (Pixels [0, 3])"
    and up: "arg_excludeunits exclude_pix_args \<in> set pix_units"
    by (simp_all add: exclude_pix_args_def default_args_def pix_units_def)
  have ev: "arg_exclude exclude_velo_args = Some (Coords [29/10, 1/10])"
    and uv: "arg_excludeunits exclude_velo_args \<in> set velo_units"
    by (simp_all add: exclude_velo_args_def default_args_def velo_units_def)
  have p: "excludemask ?s1 ! 1 \<and> [True, True, True, False] ! 1
           \<and> \<not> fit_OK [True, True, True, False] 0 4 ! 1"
    using exclusion_dominates [OF regions_exclude_pix ep _ fm1, of 1 0 4,
        THEN conjunct1, rule_format, OF _ _ up, where ks = "[0, 3]" and a = 0 and b = 3]
    by (simp add: endpoints_len_def session0_def)
  have v: "excludemask ?s2 ! 2 \<and> [True, True, True, True] ! 2
           \<and> \<not> fit_OK [True, True, True, True] 0 4 ! 2"
    using exclusion_dominates [OF regions_exclude_velo ev _ fm2, of 2 0 4,
        THEN conjunct2, rule_format, OF _ _ uv,
        where vl = "29/10" and vu = "1/10" and xl = 3 and xu = 0] x1 x2
    by (simp add: endpoints_len_def endpoints_values_def session0_def)
  show ?thesis
    using regions_exclude_pix regions_exclude_velo fm1 x1 x2 p v by simp
qed


subsection \<open>Interval lists with an odd number of endpoints\<close>

text \<open>
  Claim C5, as amended. An inclusion list with an odd number of endpoints, in a
  recognised unit, is not fatal to the inclusion step and leaves every field of the
  session but the exclusion mask as it was: the stored inclusion lists are retained and
  nothing is printed. An exclusion list with an odd number of endpoints leaves the whole
  session, the exclusion mask included, as it was, and nothing is printed.
\<close>

theorem odd_interval_list_ignored:
  "(arg_include args = Some l \<and> odd (endpoints_len l)
      \<and> arg_includeunits args \<in> set velo_units \<union> set pix_units
      \<longrightarrow> (\<exists>m. dofit_include args s = (s\<lparr>excludemask := m\<rparr>, None)))
   \<and> (arg_exclude args = Some l' \<and> odd (endpoints_len l')
      \<and> arg_excludeunits args \<in> set velo_units \<union> set pix_units
      \<longrightarrow> dofit_exclude args s = (s, None))"
  by (auto simp: dofit_include_def dofit_exclude_def Let_def)

theorem odd_interval_list_ignored_witness:
  "odd (endpoints_len (Pixels [1, 3, 2]))
   \<and> (\<exists>m. dofit_include odd_include_args session_sub = (session_sub\<lparr>excludemask := m\<rparr>, None))
   \<and> dofit_exclude odd_exclude_args session_sub = (session_sub, None)"
  using odd_interval_list_ignored [of odd_include_args "Pixels [1, 3, 2]" session_sub
      "Pixels [1, 3, 2]"]
    odd_interval_list_ignored [of odd_exclude_args "Pixels [1, 3, 2]" session_sub
      "Pixels [1, 3, 2]"]
  by (simp add: odd_include_args_def odd_exclude_args_def default_args_def endpoints_len_def
        pix_units_def)


text \<open>
  The claim as stated fails: the odd inclusion list \<open>[1, 3, 2]\<close> turns the exclusion mask
  from all \<open>False\<close> into all \<open>True\<close>, and no warning is printed.
\<close>

theorem odd_inclusion_resets_mask_counterexample:
  "odd (endpoints_len (Pixels [1, 3, 2]))
   \<and> snd (dofit_regions odd_include_args session_sub) = None
   \<and> excludemask session_sub = [False, False, False, False]
   \<and> excludemask (fst (dofit_regions odd_include_args session_sub)) = [True, True, True, True]
   \<and> stdout (fst (dofit_regions odd_include_args session_sub)) = stdout session_sub"
  by (simp add: eval_defs region_defs odd_include_args_def)


subsection \<open>\<open>_baseline\<close>: before and after the minimiser\<close>

lemma length_fit_OK [simp]: "length (fit_OK msk lo hi) = length msk"
  by (simp add: fit_OK_def)

lemma mask_select_nonempty:
  assumes "length m = length xs" and "i < length xs" and "m ! i"
  shows "map fst (filter snd (zip xs m)) \<noteq> []"
proof -
  have "(xs ! i, m ! i) \<in> set (zip xs m)"
    using assms by (metis in_set_zip fst_conv snd_conv)
  with assms(3) have "(xs ! i, m ! i) \<in> set (filter snd (zip xs m))" by simp
  then have "filter snd (zip xs m) \<noteq> []" by (metis empty_iff empty_set)
  then show ?thesis by simp
qed

lemma fit_conclude_nan:
  "fit_conclude mp pl xc = Inl ChiSquaredNaN \<longleftrightarrow> isnan (mp_fnorm mp)"
  by (auto simp: fit_conclude_def powerlaw_curve_def Let_def split: sum.splits if_splits)

lemma fit_conclude_returns:
  "\<not> isnan (mp_fnorm mp) \<Longrightarrow> (pl \<Longrightarrow> 3 \<le> length (mp_params mp)) \<Longrightarrow>
     \<exists>c. fit_conclude mp pl xc = Inr (c, mp_params mp)"
  by (auto simp: fit_conclude_def powerlaw_curve_def Let_def)

lemma fit_prepare_poly_example:
  "fit_prepare (\<lambda>xs u. xs) [5, 7, 9, 11] [0, 1, 2, 3] None Default Default (Some 0)
     [False, False, False, False] False ''pixels'' True
   = Inr (poly_residual [0, 1, 2, 3] [5, 7, 9, 11] [1, 1, 1, 1], [0], [0, 1, 2, 3])"
  by (simp add: fit_prepare_def fit_weights_def xmin_of_def xmax_of_def setslice_def
        slice_lo_def slice_hi_def slice_index_def mask_assign_def fit_OK_def fit_problem_def
        mask_select_def numeral_eq_Suc)

lemma fit_prepare_powerlaw_example:
  "fit_prepare (\<lambda>xs u. xs) [- 5, 7, 9, 11] [1, 2, 3, 4] None Default Default (Some 0)
     [False, False, False, False] True ''pixels'' True
   = Inr (powerlaw_residual [1, 2, 3, 4] [- 5, 7, 9, 11] [1, 1, 1, 1],
          [median [- 5, 7, 9, 11], 2, 1 - 1], [1, 2, 3, 4])"
  by (simp add: fit_prepare_def fit_weights_def xmin_of_def xmax_of_def setslice_def
        slice_lo_def slice_hi_def slice_index_def mask_assign_def fit_OK_def fit_problem_def
        mask_select_def numeral_eq_Suc)


text \<open>
  Claim C7, as amended. Once the minimiser has been called and has returned,
  \<open>_baseline\<close> raises the \<open>ValueError\<close> of the degenerate fit exactly when the statistic
  \<open>fnorm\<close> is NaN. For every other statistic, finite or infinite, it returns the
  parameters with a curve (a power law needs three parameters back).
\<close>

theorem fit_fails_iff_statistic_nan:
  assumes "fit_prepare (as_unit C) spectrum xarr err xmin xmax ord msk pl units zok
             = Inr (f, pguess, xc)"
  shows "(p_baseline C spectrum xarr err xmin xmax ord msk pl units zok = Inl ChiSquaredNaN
            \<longleftrightarrow> isnan (mp_fnorm (mpfit C f pguess)))
       \<and> (\<not> isnan (mp_fnorm (mpfit C f pguess))
            \<and> (\<not> pl \<or> 3 \<le> length (mp_params (mpfit C f pguess)))
          \<longrightarrow> (\<exists>c. p_baseline C spectrum xarr err xmin xmax ord msk pl units zok
                      = Inr (c, mp_params (mpfit C f pguess))))"
  using assms fit_conclude_returns [of "mpfit C f pguess" pl xc]
  by (auto simp: p_baseline_def fit_conclude_nan)

theorem fit_fails_iff_statistic_nan_witness:
  "fit_prepare (as_unit (fixed_fit \<lparr>mp_params = [8], mp_fnorm = Finite 20\<rparr>))
       [5, 7, 9, 11] [0, 1, 2, 3] None Default Default (Some 0)
       [False, False, False, False] False ''pixels'' True
     = Inr (poly_residual [0, 1, 2, 3] [5, 7, 9, 11] [1, 1, 1, 1], [0], [0, 1, 2, 3])
   \<and> p_baseline (fixed_fit \<lparr>mp_params = [8], mp_fnorm = Finite 20\<rparr>)
       [5, 7, 9, 11] [0, 1, 2, 3] None Default Default (Some 0)
       [False, False, False, False] False ''pixels'' True \<noteq> Inl ChiSquaredNaN
   \<and> (\<exists>c. p_baseline (fixed_fit \<lparr>mp_params = [8], mp_fnorm = Finite 20\<rparr>)
       [5, 7, 9, 11] [0, 1, 2, 3] None Default Default (Some 0)
       [False, False, False, False] False ''pixels'' True = Inr (c, [8]))"
  using fit_fails_iff_statistic_nan [of "fixed_fit \<lparr>mp_params = [8], mp_fnorm = Finite 20\<rparr>"
      "[5, 7, 9, 11]" "[0, 1, 2, 3]" None Default Default "Some 0"
      "[False, False, False, False]" False "''pixels''" True
      "poly_residual [0, 1, 2, 3] [5, 7, 9, 11] [1, 1, 1, 1]" "[0]" "[0, 1, 2, 3]"]
    fit_prepare_poly_example
  by (simp add: fixed_fit_def isnan_def)


text \<open>The claim as stated fails: an infinite statistic is not finite, and the fit returns.\<close>

theorem infinite_statistic_counterexample:
  "\<not> isfinite (mp_fnorm \<lparr>mp_params = [8], mp_fnorm = Infinite\<rparr>)
   \<and> p_baseline (fixed_fit \<lparr>mp_params = [8], mp_fnorm = Infinite\<rparr>)
       [5, 7, 9, 11] [0, 1, 2, 3] None Default Default (Some 0)
       [False, False, False, False] False ''pixels'' True
     = Inr (Array1 [Num 8, Num 8, Num 8, Num 8], [8])"
  using fit_prepare_poly_example
  by (simp add: p_baseline_def fixed_fit_def fit_conclude_def isnan_def isfinite_def
        squeeze_def poly_curve_def poly1d_def Let_def)


text \<open>
  Claim C6, as amended. A power-law fit tests no sign. With a mask, coordinates and
  uncertainties as long as the series, and one sample taking part, the steps before the
  minimiser never raise, whatever the values of the samples: the minimiser is called
  with the log-space residual over all the unmasked samples (none is skipped) and the
  guess (median, 2, first coordinate - 1), and the fit raises the \<open>ValueError\<close> only
  afterwards, exactly when the statistic the minimiser reports is NaN.
\<close>

theorem powerlaw_fit_checks_no_sign:
  assumes "length msk = length spectrum"
    and "length (as_unit C xarr units) = length spectrum"
    and "err = None \<or> (\<exists>e. err = Some e \<and> length e = length spectrum)"
    and "i < length spectrum"
    and "fit_OK msk (xmin_of xmin) (xmax_of (length spectrum) xmax) ! i"
  shows "\<exists>xs ds es.
           mask_select spectrum (fit_OK msk (xmin_of xmin) (xmax_of (length spectrum) xmax))
             = Inr ds
         \<and> mask_select (as_unit C xarr units)
             (fit_OK msk (xmin_of xmin) (xmax_of (length spectrum) xmax)) = Inr xs
         \<and> xs \<noteq> []
         \<and> fit_prepare (as_unit C) spectrum xarr err xmin xmax ord msk True units zok
             = Inr (powerlaw_residual xs ds es, [median ds, 2, hd xs - 1], as_unit C xarr units)
         \<and> p_baseline C spectrum xarr err xmin xmax ord msk True units zok
             = fit_conclude
                 (mpfit C (powerlaw_residual xs ds es) [median ds, 2, hd xs - 1]) True
                 (as_unit C xarr units)
         \<and> (p_baseline C spectrum xarr err xmin xmax ord msk True units zok = Inl ChiSquaredNaN
              \<longleftrightarrow> isnan (mp_fnorm
                    (mpfit C (powerlaw_residual xs ds es) [median ds, 2, hd xs - 1])))"
proof -
  let ?OK = "fit_OK msk (xmin_of xmin) (xmax_of (length spectrum) xmax)"
  let ?xc = "as_unit C xarr units"
  let ?err1 = "setslice (setslice (fit_weights err (length spectrum) zok) None
                  (Some (xmin_of xmin)) large_error)
                 (Some (xmax_of (length spectrum) xmax)) None large_error"
  have lw: "length ?err1 = length spectrum"
    using assms(3) by (auto simp: fit_weights_def)
  obtain err2 where e2: "mask_assign ?err1 msk large_error = Inr err2"
    and le2: "length err2 = length spectrum"
    using lw assms(1) by (auto simp: mask_assign_def)
  define ds where "ds = map fst (filter snd (zip spectrum ?OK))"
  define xs where "xs = map fst (filter snd (zip ?xc ?OK))"
  define es where "es = map fst (filter snd (zip err2 ?OK))"
  have sd: "mask_select spectrum ?OK = Inr ds"
    using assms(1) by (simp add: mask_select_def ds_def)
  have sx: "mask_select ?xc ?OK = Inr xs"
    using assms(1,2) by (simp add: mask_select_def xs_def)
  have se: "mask_select err2 ?OK = Inr es"
    using assms(1) le2 by (simp add: mask_select_def es_def)
  have ne: "xs \<noteq> []"
    unfolding xs_def using assms(1,2,4,5) by (intro mask_select_nonempty [where i = i]) auto
  then obtain x0 r where xr: "xs = x0 # r" by (cases xs) auto
  have fp: "fit_problem True ord spectrum err2 ?xc ?OK
              = Inr (powerlaw_residual xs ds es, [median ds, 2, hd xs - 1])"
    using sd sx se xr by (simp add: fit_problem_def)
  have prep: "fit_prepare (as_unit C) spectrum xarr err xmin xmax ord msk True units zok
                = Inr (powerlaw_residual xs ds es, [median ds, 2, hd xs - 1], ?xc)"
    using e2 fp by (simp add: fit_prepare_def Let_def)
  have pb: "p_baseline C spectrum xarr err xmin xmax ord msk True units zok
              = fit_conclude (mpfit C (powerlaw_residual xs ds es) [median ds, 2, hd xs - 1])
                  True ?xc"
    using prep by (simp add: p_baseline_def)
  show ?thesis
    using sd sx ne prep pb fit_conclude_nan by metis
qed


theorem powerlaw_fit_checks_no_sign_witness:
  "fit_OK [False, False, False, False] (xmin_of Default)
       (xmax_of (length [- 5, 7, 9, 11 :: real]) Default) ! 0
   \<and> p_baseline (fixed_fit \<lparr>mp_params = [1, 2, 1], mp_fnorm = Finite 0\<rparr>)
       [- 5, 7, 9, 11] [1, 2, 3, 4] None Default Default (Some 0)
       [False, False, False, False] True ''pixels'' True \<noteq> Inl ChiSquaredNaN
   \<and> (\<exists>xs ds es.
         mask_select [- 5, 7, 9, 11 :: real]
           (fit_OK [False, False, False, False] (xmin_of Default)
              (xmax_of (length [- 5, 7, 9, 11 :: real]) Default)) = Inr ds
       \<and> fit_prepare (as_unit (fixed_fit \<lparr>mp_params = [1, 2, 1], mp_fnorm = Finite 0\<rparr>))
           [- 5, 7, 9, 11] [1, 2, 3, 4] None Default Default (Some 0)
           [False, False, False, False] True ''pixels'' True
         = Inr (powerlaw_residual xs ds es, [median ds, 2, hd xs - 1],
                as_unit (fixed_fit \<lparr>mp_params = [1, 2, 1], mp_fnorm = Finite 0\<rparr>)
                  [1, 2, 3, 4] ''pixels''))"
proof -
  let ?C = "fixed_fit \<lparr>mp_params = [1, 2, 1], mp_fnorm = Finite 0\<rparr>"
  let ?OK = "fit_OK [False, False, False, False] (xmin_of Default)
       (xmax_of (length [- 5, 7, 9, 11 :: real]) Default)"
  have a1: "length [False, False, False, False] = length [- 5, 7, 9, 11 :: real]" by simp
  have a2: "length (as_unit ?C [1, 2, 3, 4] ''pixels'') = length [- 5, 7, 9, 11 :: real]"
    by (simp add: fixed_fit_def)
  have a3: "(None :: real list option) = None
              \<or> (\<exists>e. None = Some e \<and> length e = length [- 5, 7, 9, 11 :: real])" by simp
  have a4: "0 < length [- 5, 7, 9, 11 :: real]" by simp
  have ok: "?OK ! 0"
    by (simp add: fit_OK_def xmin_of_def xmax_of_def setslice_def slice_lo_def slice_hi_def
          slice_index_def)
  from powerlaw_fit_checks_no_sign [OF a1 a2 a3 a4 ok, of "Some 0" True]
  obtain xs ds es where
    d: "mask_select [- 5, 7, 9, 11 :: real] ?OK = Inr ds"
    and p: "fit_prepare (as_unit ?C) [- 5, 7, 9, 11] [1, 2, 3, 4] None Default Default (Some 0)
              [False, False, False, False] True ''pixels'' True
            = Inr (powerlaw_residual xs ds es, [median ds, 2, hd xs - 1],
                   as_unit ?C [1, 2, 3, 4] ''pixels'')"
    and q: "(p_baseline ?C [- 5, 7, 9, 11] [1, 2, 3, 4] None Default Default (Some 0)
               [False, False, False, False] True ''pixels'' True = Inl ChiSquaredNaN)
            = isnan (mp_fnorm (mpfit ?C (powerlaw_residual xs ds es)
                [median ds, 2, hd xs - 1]))"
    by blast
  have n: "p_baseline ?C [- 5, 7, 9, 11] [1, 2, 3, 4] None Default Default (Some 0)
               [False, False, False, False] True ''pixels'' True \<noteq> Inl ChiSquaredNaN"
    using q by (simp add: fixed_fit_def isnan_def)
  show ?thesis using ok n d p by blast
qed

text \<open>
  The claim as stated fails: with the negative sample \<open>-5\<close> unmasked, a minimiser
  reporting a finite statistic makes the fit return, and one reporting NaN makes it raise
  after the minimiser, so no error is raised before the minimiser is called.
\<close>

theorem powerlaw_negative_sample_counterexample:
  "\<not> isl (p_baseline (fixed_fit \<lparr>mp_params = [1, 2, 1], mp_fnorm = Finite 0\<rparr>)
       [- 5, 7, 9, 11] [1, 2, 3, 4] None Default Default (Some 0)
       [False, False, False, False] True ''pixels'' True)
   \<and> snd (projr (p_baseline (fixed_fit \<lparr>mp_params = [1, 2, 1], mp_fnorm = Finite 0\<rparr>)
       [- 5, 7, 9, 11] [1, 2, 3, 4] None Default Default (Some 0)
       [False, False, False, False] True ''pixels'' True)) = [1, 2, 1]
   \<and> p_baseline (fixed_fit \<lparr>mp_params = [1, 2, 1], mp_fnorm = NaN\<rparr>)
       [- 5, 7, 9, 11] [1, 2, 3, 4] None Default Default (Some 0)
       [False, False, False, False] True ''pixels'' True = Inl ChiSquaredNaN"
  using fit_prepare_powerlaw_example
  by (simp add: p_baseline_def fixed_fit_def fit_conclude_def isnan_def powerlaw_curve_def
        Let_def)


subsection \<open>The whole of \<open>dofit\<close>\<close>

lemma broadcast_inplace_error:
  "broadcast_inplace f xs ys = Inl e \<Longrightarrow> e = ShapeMismatch"
  by (auto simp: broadcast_inplace_def split: if_splits)

lemma broadcast2_error: "broadcast2 f xs ys = Inl e \<Longrightarrow> e = ShapeMismatch"
  by (auto simp: broadcast2_def split: if_splits)

lemma iadd_error: "iadd d c = Inl e \<Longrightarrow> e = ShapeMismatch"
  by (auto simp: iadd_def split: ndarray.splits dest: broadcast_inplace_error)

lemma isub_error: "isub d c = Inl e \<Longrightarrow> e = ShapeMismatch"
  by (auto simp: isub_def split: ndarray.splits dest: broadcast_inplace_error)

lemma nd_sub_error: "nd_sub d c = Inl e \<Longrightarrow> e = ShapeMismatch"
  by (auto simp: nd_sub_def split: ndarray.splits dest: broadcast2_error)

lemma fit_mask_error: "fit_mask s = Inl e \<Longrightarrow> e = ShapeMismatch"
  by (auto simp: fit_mask_def split: sum.splits dest: broadcast2_error)

lemma unsubtract_error: "unsubtract s = (s', Some e) \<Longrightarrow> e = ShapeMismatch \<and> s' = s"
  by (auto simp: unsubtract_def split: if_splits sum.splits dest: iadd_error)

lemma unsubtract_returns:
  "unsubtract s = (s', None) \<Longrightarrow>
     \<not> subtracted s' \<and>
     (if subtracted s
      then \<exists>d. iadd (Spectrum_data s) (basespec s) = Inr d
             \<and> s' = s\<lparr>Spectrum_data := d, subtracted := False\<rparr>
      else s' = s\<lparr>stdout := stdout s @ [not_subtracted_message]\<rparr>)"
  by (auto simp: unsubtract_def split: if_splits sum.splits)





lemma dofit_subtract_error:
  "dofit_subtract args s = (s', Some e) \<Longrightarrow> e = ShapeMismatch \<or> e = AttributeError"
  by (auto simp: dofit_subtract_def split: if_splits option.splits sum.splits prod.splits
      dest: nd_sub_error isub_error unsubtract_error)

lemma dofit_finish_error:
  "dofit_finish C args fitp s = (s', Some e) \<Longrightarrow> e \<noteq> ChiSquaredNaN"
  by (auto simp: dofit_finish_def Let_def powerlaw_curve_def
      split: if_splits sum.splits dest: dofit_subtract_error)

lemma dofit_fit_chi_squared:
  assumes "dofit_fit C args s = (s', Some ChiSquaredNaN)"
  shows "(if subtracted s then unsubtract s else (s, None)) = (s', None)"
proof -
  obtain s1 e1 where u: "(if subtracted s then unsubtract s else (s, None)) = (s1, e1)"
    by (cases "if subtracted s then unsubtract s else (s, None)") auto
  show ?thesis
  proof (cases e1)
    case (Some e)
    with u have "e = ShapeMismatch"
      by (auto split: if_splits dest: unsubtract_error)
    with assms u Some show ?thesis by (simp add: dofit_fit_def)
  next
    case None
    with assms u show ?thesis
      by (auto simp: dofit_fit_def split: option.splits sum.splits prod.splits
          dest: fit_mask_error dofit_finish_error)
  qed
qed

lemma p_baseline_powerlaw_curve:
  "p_baseline C spectrum xarr err xmin xmax ord msk True units zok = Inr (bestfit, fitp) \<Longrightarrow>
     \<exists>c. powerlaw_curve fitp (as_unit C xarr units) = Inr c \<and> bestfit = squeeze c"
  by (auto simp: p_baseline_def fit_prepare_def fit_conclude_def Let_def
      split: sum.splits prod.splits if_splits)

lemma dofit_fit_success:
  assumes "dofit_fit C args s = (s', None)"
  shows "\<exists>s1 stf msk bestfit fitp curve.
     (if subtracted s then unsubtract s else (s, None)) = (s1, None)
     \<and> \<not> subtracted s1
     \<and> spectofit s1 = Some stf \<and> fit_mask s1 = Inr msk
     \<and> p_baseline C stf (Spectrum_xarr s1) (Spectrum_error s1) (arg_xmin args) (arg_xmax args)
          (order s1) msk (arg_powerlaw args) (arg_xarr_fit_units args) (arg_zeroerr_is_OK args)
        = Inr (bestfit, fitp)
     \<and> curve = (if arg_powerlaw args then bestfit
                 else Array1 (poly_curve fitp
                        (as_unit C (Spectrum_xarr s1) (arg_xarr_fit_units args))))
     \<and> (if arg_subtract args
        then \<exists>d. isub (Spectrum_data s1) curve = Inr d
               \<and> s' = s1\<lparr>baselinepars := Some fitp, powerlaw := arg_powerlaw args,
                         basespec := curve, Spectrum_data := d, subtracted := True\<rparr>
        else s' = s1\<lparr>baselinepars := Some fitp, powerlaw := arg_powerlaw args,
                      basespec := curve, subtracted := False\<rparr>)"
proof -
  obtain s1 where u: "(if subtracted s then unsubtract s else (s, None)) = (s1, None)"
    using assms by (auto simp: dofit_fit_def split: prod.splits option.splits)
  have ns: "\<not> subtracted s1"
    using u by (auto split: if_splits dest: unsubtract_returns)
  obtain stf where stf: "spectofit s1 = Some stf"
    using assms u by (auto simp: dofit_fit_def split: option.splits)
  obtain msk where msk: "fit_mask s1 = Inr msk"
    using assms u stf by (auto simp: dofit_fit_def split: sum.splits)
  obtain bestfit fitp where pb:
    "p_baseline C stf (Spectrum_xarr s1) (Spectrum_error s1) (arg_xmin args) (arg_xmax args)
          (order s1) msk (arg_powerlaw args) (arg_xarr_fit_units args) (arg_zeroerr_is_OK args)
        = Inr (bestfit, fitp)"
    using assms u stf msk by (auto simp: dofit_fit_def split: sum.splits)
  have fin: "dofit_finish C args fitp (s1\<lparr>basespec := bestfit, baselinepars := Some fitp\<rparr>)
               = (s', None)"
    using assms u stf msk pb by (simp add: dofit_fit_def)
  define curve where "curve = (if arg_powerlaw args then bestfit
                 else Array1 (poly_curve fitp
                        (as_unit C (Spectrum_xarr s1) (arg_xarr_fit_units args))))"
  have sub: "dofit_subtract args (s1\<lparr>baselinepars := Some fitp, powerlaw := arg_powerlaw args,
                 basespec := curve\<rparr>) = (s', None)"
  proof (cases "arg_powerlaw args")
    case True
    with pb obtain c where c: "powerlaw_curve fitp
        (as_unit C (Spectrum_xarr s1) (arg_xarr_fit_units args)) = Inr c"
      and b: "bestfit = squeeze c"
      using p_baseline_powerlaw_curve by metis
    with fin True show ?thesis by (simp add: dofit_finish_def curve_def)
  next
    case False
    with fin show ?thesis by (simp add: dofit_finish_def curve_def)
  qed
  have fin2: "(if arg_subtract args
        then \<exists>d. isub (Spectrum_data s1) curve = Inr d
               \<and> s' = s1\<lparr>baselinepars := Some fitp, powerlaw := arg_powerlaw args,
                         basespec := curve, Spectrum_data := d, subtracted := True\<rparr>
        else s' = s1\<lparr>baselinepars := Some fitp, powerlaw := arg_powerlaw args,
                      basespec := curve, subtracted := False\<rparr>)"
    using sub ns by (auto simp: dofit_subtract_def split: sum.splits if_splits)
  show ?thesis
    using u ns stf msk pb curve_def fin2 by blast
qed

lemma dofit_nan_session_sub:
  "dofit (fixed_fit \<lparr>mp_params = [8], mp_fnorm = NaN\<rparr>) default_args session_sub
   = (session_sub\<lparr>includevelo := Coords [], Spectrum_data := [Num 5, Num 7, Num 9, Num 11],
        subtracted := False\<rparr>, Some ChiSquaredNaN)"
  by (simp add: eval_defs)

lemma dofit_nan_session0:
  "dofit (fixed_fit \<lparr>mp_params = [8], mp_fnorm = NaN\<rparr>) default_args session0
   = (session0\<lparr>includepix := Some [], includevelo := Coords []\<rparr>, Some ChiSquaredNaN)"
  by (simp add: eval_defs)




text \<open>
  Claim C1, as amended. When \<open>dofit\<close> raises the \<open>ValueError\<close> of the degenerate fit, the
  stored parameters and the stored curve are the ones from before the call. A session
  that was not subtracted keeps its flag and its host series. A session that was
  subtracted has had the stored curve added back to the host series and its flag
  cleared before the fit was tried, and stays so.
\<close>

theorem failed_fit_state:
  assumes "dofit C args s = (s', Some ChiSquaredNaN)"
  shows "baselinepars s' = baselinepars s \<and> basespec s' = basespec s
     \<and> \<not> subtracted s'
     \<and> (\<not> subtracted s \<longrightarrow> Spectrum_data s' = Spectrum_data s)
     \<and> (subtracted s \<longrightarrow> iadd (Spectrum_data s) (basespec s) = Inr (Spectrum_data s'))"
proof -
  obtain s1 where r: "dofit_regions args s = (s1, None)"
    and f: "dofit_fit C args s1 = (s', Some ChiSquaredNaN)"
    using assms dofit_regions_error [of args s]
    by (auto simp: dofit_def split: prod.splits option.splits)
  have fr: "same_fit_state s s1" using r by (rule dofit_regions_frame)
  have u: "(if subtracted s1 then unsubtract s1 else (s1, None)) = (s', None)"
    using f by (rule dofit_fit_chi_squared)
  show ?thesis
  proof (cases "subtracted s1")
    case True
    with u fr show ?thesis
      by (auto simp: same_fit_state_def dest!: unsubtract_returns)
  next
    case False
    with u fr show ?thesis by (auto simp: same_fit_state_def)
  qed
qed


theorem failed_fit_state_witness:
  "dofit (fixed_fit \<lparr>mp_params = [8], mp_fnorm = NaN\<rparr>) default_args session_sub
     = (session_sub\<lparr>includevelo := Coords [], Spectrum_data := [Num 5, Num 7, Num 9, Num 11],
          subtracted := False\<rparr>, Some ChiSquaredNaN)
   \<and> subtracted session_sub
   \<and> baselinepars (session_sub\<lparr>includevelo := Coords [], Spectrum_data := [Num 5, Num 7, Num 9, Num 11],
          subtracted := False\<rparr>) = baselinepars session_sub
   \<and> iadd (Spectrum_data session_sub) (basespec session_sub) = Inr [Num 5, Num 7, Num 9, Num 11]
   \<and> dofit (fixed_fit \<lparr>mp_params = [8], mp_fnorm = NaN\<rparr>) default_args session0
     = (session0\<lparr>includepix := Some [], includevelo := Coords []\<rparr>, Some ChiSquaredNaN)
   \<and> \<not> subtracted session0
   \<and> Spectrum_data (session0\<lparr>includepix := Some [], includevelo := Coords []\<rparr>)
     = Spectrum_data session0"
  using failed_fit_state [OF dofit_nan_session_sub] failed_fit_state [OF dofit_nan_session0]
    dofit_nan_session_sub dofit_nan_session0
  by (simp add: session_sub_def session0_def)

text \<open>
  The claim as stated fails: the degenerate fit on the subtracted session leaves the host
  series changed and the flag cleared.
\<close>

theorem failed_fit_mutates_counterexample:
  "snd (dofit (fixed_fit \<lparr>mp_params = [8], mp_fnorm = NaN\<rparr>) default_args session_sub)
     = Some ChiSquaredNaN
   \<and> subtracted session_sub
   \<and> \<not> subtracted
         (fst (dofit (fixed_fit \<lparr>mp_params = [8], mp_fnorm = NaN\<rparr>) default_args session_sub))
   \<and> Spectrum_data session_sub = [Num 4, Num 6, Num 8, Num 10]
   \<and> Spectrum_data
         (fst (dofit (fixed_fit \<lparr>mp_params = [8], mp_fnorm = NaN\<rparr>) default_args session_sub))
     = [Num 5, Num 7, Num 9, Num 11]"
  by (simp add: dofit_nan_session_sub) (simp add: session_sub_def session0_def)






subsection \<open>The curve over the whole series\<close>

lemma fit_prepare_lengths:
  assumes "fit_prepare conv spectrum xarr err xmin xmax ord msk pl units zok = Inr (f, pg, xc)"
  shows "xc = conv xarr units \<and> length xc = length spectrum \<and> length msk = length spectrum"
  using assms
  by (auto simp: fit_prepare_def fit_problem_def Let_def mask_select_def
      split: sum.splits if_splits option.splits list.splits prod.splits)

lemma fit_conclude_curve:
  "fit_conclude mp pl xc = Inr (c, fitp) \<Longrightarrow> c = squeeze (full_curve pl fitp xc)"
  by (auto simp: fit_conclude_def full_curve_def powerlaw_curve_def poly_curve_def Let_def
      split: if_splits sum.splits)

lemma length_full_curve [simp]: "length (full_curve pl fitp xs) = length xs"
  by (simp add: full_curve_def)

lemma p_baseline_curve:
  assumes "p_baseline C spectrum xarr err xmin xmax ord msk pl units zok = Inr (c, fitp)"
  shows "length (as_unit C xarr units) = length spectrum \<and> length msk = length spectrum
     \<and> c = squeeze (full_curve pl fitp (as_unit C xarr units))"
proof -
  obtain f pg xc where
    prep: "fit_prepare (as_unit C) spectrum xarr err xmin xmax ord msk pl units zok
             = Inr (f, pg, xc)"
    and con: "fit_conclude (mpfit C f pg) pl xc = Inr (c, fitp)"
    using assms by (auto simp: p_baseline_def split: sum.splits prod.splits)
  show ?thesis
    using fit_prepare_lengths [OF prep] fit_conclude_curve [OF con] by auto
qed

lemma unsubtract_frame:
  "(if subtracted s then unsubtract s else (s, None)) = (s1, None) \<Longrightarrow>
     spectofit s1 = spectofit s \<and> Spectrum_xarr s1 = Spectrum_xarr s"
  by (auto split: if_splits dest!: unsubtract_returns)

lemma full_curve_poly_nth:
  "i < length xs \<Longrightarrow> full_curve False ps xs ! i = Num (poly1d ps (xs ! i))"
  by (simp add: full_curve_def)

lemma full_curve_powerlaw_nth:
  assumes "i < length xs" and "ps ! 2 \<noteq> 0" and "0 < xs ! i / ps ! 2"
  shows "full_curve True ps xs ! i = Num (ps ! 0 * (xs ! i / ps ! 2) powr (- (ps ! 1)))"
proof -
  define a where "a = xs ! i / ps ! 2"
  have pos: "0 < a" using assms(3) by (simp add: a_def)
  have "fpow (Num a) (- (ps ! 1)) = Num (a powr (- (ps ! 1)))"
    using pos by simp
  then have "fscale (ps ! 0) (fpow (fdiv (xs ! i) (ps ! 2)) (- (ps ! 1)))
               = Num (ps ! 0 * a powr (- (ps ! 1)))"
    using assms(2) by (simp add: fdiv_def a_def)
  then show ?thesis
    using assms(1) by (simp add: full_curve_def a_def)
qed

lemma p_baseline_line_example:
  "p_baseline (fixed_fit \<lparr>mp_params = [2, 5], mp_fnorm = Finite 0\<rparr>) [5, 7, 9, 11]
       [0, 1, 2, 3] None Default Default (Some 1) [True, False, False, True] False
       ''pixels'' True
     = Inr (Array1 [Num 5, Num 7, Num 9, Num 11], [2, 5])"
  by (simp add: eval_defs)

lemma regions_session_edge:
  "dofit_regions exclude_last_args session_edge
   = (session_edge\<lparr>excludemask := [False, False, False, True], includepix := Some [],
        includevelo := Coords [], excludepix := [3, 4]\<rparr>, None)"
  by (simp add: eval_defs region_defs exclude_last_args_def session_edge_def)

lemma fit_mask_session_edge:
  "fit_mask (session_edge\<lparr>excludemask := [False, False, False, True], includepix := Some [],
        includevelo := Coords [], excludepix := [3, 4]\<rparr>) = Inr [True, False, False, True]"
  by (simp add: eval_defs session_edge_def)

lemma dofit_session_edge:
  "dofit (fixed_fit \<lparr>mp_params = [2, 5], mp_fnorm = Finite 0\<rparr>) exclude_last_args session_edge
   = (session_edge\<lparr>baselinepars := Some [2, 5],
        basespec := Array1 [Num 5, Num 7, Num 9, Num 11],
        excludemask := [False, False, False, True], subtracted := True,
        includepix := Some [], includevelo := Coords [], excludepix := [3, 4],
        Spectrum_data := [Num 0, Num 0, Num 0, Num 0]\<rparr>, None)"
  by (simp add: eval_defs region_defs exclude_last_args_def session_edge_def)

text \<open>
  Claim C8, as amended. A \<open>_baseline\<close> that returns has a mask and coordinates as long
  as the series of N samples, and for N other than one its curve is an array of length N:
  the model evaluated at every coordinate, whatever the mask and the window are. A
  \<open>dofit\<close> that returns stores the parameters and that curve over the N samples of the
  series it fitted: an array of length N for a polynomial, and for a power law when N
  is not one. The value of a polynomial curve is a number at every index. The value of
  a power-law curve is a number at every index where the coordinate divided by the
  reference is positive.
\<close>

theorem curve_covers_every_sample:
  "(p_baseline C spectrum xarr err xmin xmax ord msk pl units zok = Inr (c, fitp) \<longrightarrow>
      length (as_unit C xarr units) = length spectrum
      \<and> length msk = length spectrum
      \<and> (length spectrum \<noteq> 1 \<longrightarrow>
           c = Array1 (full_curve pl fitp (as_unit C xarr units))
           \<and> nd_length c = Some (length spectrum)))
   \<and> (dofit C args s = (s', None) \<longrightarrow>
      (\<exists>stf fitp.
         spectofit s = Some stf \<and> baselinepars s' = Some fitp
         \<and> length (as_unit C (Spectrum_xarr s) (arg_xarr_fit_units args)) = length stf
         \<and> (length stf \<noteq> 1 \<or> \<not> arg_powerlaw args \<longrightarrow>
              basespec s' = Array1 (full_curve (arg_powerlaw args) fitp
                       (as_unit C (Spectrum_xarr s) (arg_xarr_fit_units args)))
              \<and> nd_length (basespec s') = Some (length stf))))
   \<and> (i < length xs \<longrightarrow> full_curve False ps xs ! i = Num (poly1d ps (xs ! i)))
   \<and> (i < length xs \<and> ps ! 2 \<noteq> 0 \<and> 0 < xs ! i / ps ! 2 \<longrightarrow>
        full_curve True ps xs ! i = Num (ps ! 0 * (xs ! i / ps ! 2) powr (- (ps ! 1))))"
proof (intro conjI impI)
  assume a: "p_baseline C spectrum xarr err xmin xmax ord msk pl units zok = Inr (c, fitp)"
  note pc = p_baseline_curve [OF a]
  show "length (as_unit C xarr units) = length spectrum" using pc by simp
  show "length msk = length spectrum" using pc by simp
  assume n: "length spectrum \<noteq> 1"
  with pc show "c = Array1 (full_curve pl fitp (as_unit C xarr units))"
    by (simp add: squeeze_def)
  from pc n show "nd_length c = Some (length spectrum)"
    by (simp add: squeeze_def nd_length_def)
next
  assume a: "dofit C args s = (s', None)"
  obtain sa where r: "dofit_regions args s = (sa, None)"
    and f: "dofit_fit C args sa = (s', None)"
    using a by (auto simp: dofit_def split: prod.splits option.splits)
  have fr: "same_fit_state s sa" using r by (rule dofit_regions_frame)
  let ?xc = "as_unit C (Spectrum_xarr s) (arg_xarr_fit_units args)"
  from dofit_fit_success [OF f]
  obtain s1 stf msk bestfit fitp curve where
    u: "(if subtracted sa then unsubtract sa else (sa, None)) = (s1, None)"
    and stf: "spectofit s1 = Some stf"
    and pb: "p_baseline C stf (Spectrum_xarr s1) (Spectrum_error s1) (arg_xmin args)
               (arg_xmax args) (order s1) msk (arg_powerlaw args) (arg_xarr_fit_units args)
               (arg_zeroerr_is_OK args) = Inr (bestfit, fitp)"
    and curve: "curve = (if arg_powerlaw args then bestfit
                 else Array1 (poly_curve fitp
                        (as_unit C (Spectrum_xarr s1) (arg_xarr_fit_units args))))"
    and s': "baselinepars s' = Some fitp \<and> basespec s' = curve"
    by (auto split: if_splits)
  have same: "spectofit s1 = spectofit s" "Spectrum_xarr s1 = Spectrum_xarr s"
    using unsubtract_frame [OF u] fr by (simp_all add: same_fit_state_def)
  note pc = p_baseline_curve [OF pb]
  have len: "length ?xc = length stf" using pc same by simp
  have bs: "basespec s' = (if arg_powerlaw args then squeeze (full_curve True fitp ?xc)
                           else Array1 (full_curve False fitp ?xc))"
    using s' curve pc same by (auto simp: full_curve_def poly_curve_def)
  have nd: "basespec s' = Array1 (full_curve (arg_powerlaw args) fitp ?xc)
              \<and> nd_length (basespec s') = Some (length stf)"
    if "length stf \<noteq> 1 \<or> \<not> arg_powerlaw args"
    using that bs len by (auto simp: squeeze_def nd_length_def)
  show "\<exists>stf fitp.
         spectofit s = Some stf \<and> baselinepars s' = Some fitp
         \<and> length ?xc = length stf
         \<and> (length stf \<noteq> 1 \<or> \<not> arg_powerlaw args \<longrightarrow>
              basespec s' = Array1 (full_curve (arg_powerlaw args) fitp ?xc)
              \<and> nd_length (basespec s') = Some (length stf))"
    using stf same s' len nd by auto
next
  assume "i < length xs"
  then show "full_curve False ps xs ! i = Num (poly1d ps (xs ! i))"
    by (rule full_curve_poly_nth)
next
  assume "i < length xs \<and> ps ! 2 \<noteq> 0 \<and> 0 < xs ! i / ps ! 2"
  then show "full_curve True ps xs ! i = Num (ps ! 0 * (xs ! i / ps ! 2) powr (- (ps ! 1)))"
    using full_curve_powerlaw_nth by blast
qed

text \<open>
  On the four-sample series with the window \<open>[1, 4)\<close> and the last sample excluded, the
  mask of the fit is true at the indices 0 and 3, and the straight line is stored at all
  four indices. The power-law curve of the series \<open>session_pl\<close> is a number at the
  coordinate 1.
\<close>

theorem curve_covers_every_sample_witness:
  "p_baseline (fixed_fit \<lparr>mp_params = [2, 5], mp_fnorm = Finite 0\<rparr>) [5, 7, 9, 11]
       [0, 1, 2, 3] None Default Default (Some 1) [True, False, False, True] False
       ''pixels'' True
     = Inr (Array1 [Num 5, Num 7, Num 9, Num 11], [2, 5])
   \<and> length [5, 7, 9, 11 :: real] \<noteq> 1
   \<and> nd_length (Array1 [Num 5, Num 7, Num 9, Num 11]) = Some (length [5, 7, 9, 11 :: real])
   \<and> Array1 [Num 5, Num 7, Num 9, Num 11] = Array1 (full_curve False [2, 5] [0, 1, 2, 3])
   \<and> dofit_regions exclude_last_args session_edge
     = (session_edge\<lparr>excludemask := [False, False, False, True], includepix := Some [],
          includevelo := Coords [], excludepix := [3, 4]\<rparr>, None)
   \<and> fit_mask (session_edge\<lparr>excludemask := [False, False, False, True],
          includepix := Some [], includevelo := Coords [], excludepix := [3, 4]\<rparr>)
     = Inr [True, False, False, True]
   \<and> dofit (fixed_fit \<lparr>mp_params = [2, 5], mp_fnorm = Finite 0\<rparr>) exclude_last_args
       session_edge
     = (session_edge\<lparr>baselinepars := Some [2, 5],
          basespec := Array1 [Num 5, Num 7, Num 9, Num 11],
          excludemask := [False, False, False, True], subtracted := True,
          includepix := Some [], includevelo := Coords [], excludepix := [3, 4],
          Spectrum_data := [Num 0, Num 0, Num 0, Num 0]\<rparr>, None)
   \<and> full_curve False [2, 5] [0, 1, 2, 3] ! 0 = Num 5
   \<and> full_curve False [2, 5] [0, 1, 2, 3] ! 3 = Num 11
   \<and> full_curve True [36, 2, 1] [0, 1, 2, 3] ! 2 = Num 9"
proof -
  let ?C = "fixed_fit \<lparr>mp_params = [2, 5], mp_fnorm = Finite 0\<rparr>"
  let ?s' = "session_edge\<lparr>baselinepars := Some [2, 5],
          basespec := Array1 [Num 5, Num 7, Num 9, Num 11],
          excludemask := [False, False, False, True], subtracted := True,
          includepix := Some [], includevelo := Coords [], excludepix := [3, 4],
          Spectrum_data := [Num 0, Num 0, Num 0, Num 0]\<rparr>"
  note th = curve_covers_every_sample [where C = ?C and spectrum = "[5, 7, 9, 11]"
      and xarr = "[0, 1, 2, 3]" and err = None and xmin = Default and xmax = Default
      and ord = "Some 1" and msk = "[True, False, False, True]" and pl = False
      and units = "''pixels''" and zok = True
      and c = "Array1 [Num 5, Num 7, Num 9, Num 11]" and fitp = "[2, 5]"
      and args = exclude_last_args and s = session_edge and s' = ?s']
  have n: "length [5, 7, 9, 11 :: real] \<noteq> 1" by simp
  have p: "Array1 [Num 5, Num 7, Num 9, Num 11]
             = Array1 (full_curve False [2, 5] (as_unit ?C [0, 1, 2, 3] ''pixels''))
           \<and> nd_length (Array1 [Num 5, Num 7, Num 9, Num 11])
               = Some (length [5, 7, 9, 11 :: real])"
    using th [where i = 0 and xs = "[]" and ps = "[]", THEN conjunct1, THEN mp,
        OF p_baseline_line_example, THEN conjunct2, THEN conjunct2, THEN mp, OF n] .
  have v0: "full_curve False [2, 5] [0, 1, 2, 3] ! 0 = Num 5"
    using th [where i = 0 and xs = "[0, 1, 2, 3]" and ps = "[2, 5]", THEN conjunct2,
        THEN conjunct2, THEN conjunct1]
    by (simp add: poly1d_def)
  have v3: "full_curve False [2, 5] [0, 1, 2, 3] ! 3 = Num 11"
    using th [where i = 3 and xs = "[0, 1, 2, 3]" and ps = "[2, 5]", THEN conjunct2,
        THEN conjunct2, THEN conjunct1]
    by (simp add: poly1d_def)
  have w: "full_curve True [36, 2, 1] [0, 1, 2, 3] ! 2 = Num 9"
    using th [where i = 2 and xs = "[0, 1, 2, 3]" and ps = "[36, 2, 1]", THEN conjunct2,
        THEN conjunct2, THEN conjunct2]
    by (simp add: powr_minus powr_numeral)
  have p1: "Array1 [Num 5, Num 7, Num 9, Num 11]
              = Array1 (full_curve False [2, 5] [0, 1, 2, 3])"
    using p [THEN conjunct1] by (simp add: fixed_fit_def)
  have p2: "nd_length (Array1 [Num 5, Num 7, Num 9, Num 11])
              = Some (length [5, 7, 9, 11 :: real])"
    using p by (rule conjunct2)
  show ?thesis
    using p1 p2 n v0 v3 w p_baseline_line_example regions_session_edge fit_mask_session_edge
      dofit_session_edge
    by (intro conjI) blast+
qed

text \<open>
  The claim as stated fails: over the velocities \<open>-1\<close>, 1, 4 and 9, the power law
  \<open>6 * x ** (-1/2)\<close> that the samples at 1, 4 and 9 follow, fitted with the sample at the
  coordinate \<open>-1\<close> masked, is NaN at that masked index.
\<close>

theorem powerlaw_curve_nan_counterexample:
  "p_baseline (fixed_fit \<lparr>mp_params = [6, 1/2, 1], mp_fnorm = Finite 0\<rparr>) [5, 6, 3, 2]
       [- 1, 1, 4, 9] None Default Default (Some 0) [True, False, False, False] True
       ''km/s'' True
     = Inr (Array1 (full_curve True [6, 1/2, 1] [- 1, 1, 4, 9]), [6, 1/2, 1])
   \<and> full_curve True [6, 1/2, 1] [- 1, 1, 4, 9] ! 0 = NotANumber
   \<and> \<not> is_num NotANumber"
  by (simp add: eval_defs powerlaw_curve_def full_curve_def is_whole_def is_num_def)

subsection \<open>Slices and strides keep arrays of one length in step\<close>

lemma length_stride_from_cong:
  "length xs = length ys \<Longrightarrow> length (stride_from k c xs) = length (stride_from k c ys)"
  by (induction xs ys arbitrary: c rule: list_induct2) auto

lemma getstride_error: "getstride xs k = Inl e \<longleftrightarrow> (k = 0 \<and> e = SliceStepZero)"
  by (auto simp: getstride_def)

lemma crop_lockstep:
  "(crop s x1 x2 = (s1, None) \<longrightarrow>
      (\<exists>c. basespec s = Array1 c \<and> basespec s1 = Array1 (getslice c (Some x1) (Some x2)))
      \<and> excludemask s1 = getslice (excludemask s) (Some x1) (Some x2)
      \<and> OKmask s1 = getslice (OKmask s) (Some x1) (Some x2)
      \<and> bx1 s1 = bx1 s \<and> bx2 s1 = bx2 s
      \<and> (lockstep s \<longrightarrow> lockstep s1))
   \<and> (crop s x1 x2 = (s1, Some e) \<longrightarrow> s1 = s)"
  by (auto simp: crop_def nd_getslice_def lockstep_def nd_length_def getslice_def Let_def
           split: ndarray.splits)

lemma downsample_lockstep:
  "(downsample s k = (s1, None) \<longrightarrow>
      (\<exists>c c'. basespec s = Array1 c \<and> getstride c k = Inr c' \<and> basespec s1 = Array1 c')
      \<and> getstride (excludemask s) k = Inr (excludemask s1)
      \<and> getstride (OKmask s) k = Inr (OKmask s1)
      \<and> bx1 s1 = bx1 s \<and> bx2 s1 = bx2 s
      \<and> (lockstep s \<longrightarrow> lockstep s1))
   \<and> (downsample s k = (s1, Some e) \<longrightarrow> s1 = s)"
  apply (auto simp: downsample_def nd_getstride_def lockstep_def nd_length_def getstride_error
           split: ndarray.splits sum.splits)
  apply (auto simp: getstride_def split: if_splits intro: length_stride_from_cong)
  done

lemma crop_session0:
  "crop session0 1 3 = (session0\<lparr>basespec := Array1 [Num 0, Num 0], excludemask := [False, False],
      OKmask := [True, True]\<rparr>, None)"
  by (simp add: crop_def session0_def nd_getslice_def getslice_def slice_lo_def slice_hi_def
        slice_index_def)

lemma downsample_session0:
  "downsample session0 2 = (session0\<lparr>basespec := Array1 [Num 0, Num 0], excludemask := [False, False],
      OKmask := [True, True]\<rparr>, None)"
  by (simp add: downsample_def session0_def nd_getstride_def getstride_def)

lemma lockstep_session0: "lockstep session0"
  by (simp add: lockstep_def session0_def nd_length_def)

text \<open>
  Claim C10. A successful \<open>crop(x1, x2)\<close> takes the same slice of the stored curve, of the
  exclusion mask and of the validity mask, and a successful \<open>downsample(factor)\<close> takes
  the same stride of the three; so three arrays of one length have one length afterwards.
  Neither call touches the window bounds \<open>bx1\<close> and \<open>bx2\<close>, which keep referring to the
  indices before the call. A call that raises (a zero-dimensional curve, a zero step)
  changes nothing.
\<close>

theorem crop_downsample_in_lockstep:
  "(crop s x1 x2 = (s1, None) \<longrightarrow>
      (\<exists>c. basespec s = Array1 c \<and> basespec s1 = Array1 (getslice c (Some x1) (Some x2)))
      \<and> excludemask s1 = getslice (excludemask s) (Some x1) (Some x2)
      \<and> OKmask s1 = getslice (OKmask s) (Some x1) (Some x2)
      \<and> bx1 s1 = bx1 s \<and> bx2 s1 = bx2 s
      \<and> (lockstep s \<longrightarrow> lockstep s1))
   \<and> (crop s x1 x2 = (s1, Some e) \<longrightarrow> s1 = s)
   \<and> (downsample s k = (s2, None) \<longrightarrow>
      (\<exists>c c'. basespec s = Array1 c \<and> getstride c k = Inr c' \<and> basespec s2 = Array1 c')
      \<and> getstride (excludemask s) k = Inr (excludemask s2)
      \<and> getstride (OKmask s) k = Inr (OKmask s2)
      \<and> bx1 s2 = bx1 s \<and> bx2 s2 = bx2 s
      \<and> (lockstep s \<longrightarrow> lockstep s2))
   \<and> (downsample s k = (s2, Some e') \<longrightarrow> s2 = s)"
  using crop_lockstep [of s x1 x2 s1 e] downsample_lockstep [of s k s2 e'] by blast

theorem crop_downsample_in_lockstep_witness:
  "lockstep session0
   \<and> crop session0 1 3 = (session0\<lparr>basespec := Array1 [Num 0, Num 0], excludemask := [False, False],
        OKmask := [True, True]\<rparr>, None)
   \<and> downsample session0 2 = (session0\<lparr>basespec := Array1 [Num 0, Num 0],
        excludemask := [False, False], OKmask := [True, True]\<rparr>, None)
   \<and> lockstep (session0\<lparr>basespec := Array1 [Num 0, Num 0], excludemask := [False, False],
        OKmask := [True, True]\<rparr>)
   \<and> bx2 (session0\<lparr>basespec := Array1 [Num 0, Num 0], excludemask := [False, False],
        OKmask := [True, True]\<rparr>) = 4"
  using crop_downsample_in_lockstep [of session0 1 3
      "session0\<lparr>basespec := Array1 [Num 0, Num 0], excludemask := [False, False],
        OKmask := [True, True]\<rparr>" IndexError 2
      "session0\<lparr>basespec := Array1 [Num 0, Num 0], excludemask := [False, False],
        OKmask := [True, True]\<rparr>" IndexError]
    crop_session0 downsample_session0 lockstep_session0
  by (simp add: session0_def)

subsection \<open>\<open>unsubtract\<close>\<close>

lemma unsubtract_session_sub:
  "unsubtract session_sub
     = (session_sub\<lparr>Spectrum_data := [Num 5, Num 7, Num 9, Num 11], subtracted := False\<rparr>, None)"
  by (simp add: unsubtract_def session_sub_def session0_def iadd_def broadcast_inplace_def)

text \<open>
  Claim C9. After a call of \<open>unsubtract\<close> that returned, a second call returns too and
  changes nothing in the session or the host series: it only prints the message saying
  that no baseline was subtracted. A first call that raises leaves the session as it was.
\<close>

theorem unsubtract_twice:
  "(unsubtract s = (s1, None) \<longrightarrow>
      unsubtract s1 = (s1\<lparr>stdout := stdout s1 @ [not_subtracted_message]\<rparr>, None))
   \<and> (unsubtract s = (s1, Some e) \<longrightarrow> s1 = s)"
  by (auto simp: unsubtract_def split: if_splits sum.splits)

theorem unsubtract_twice_witness:
  "unsubtract session_sub
     = (session_sub\<lparr>Spectrum_data := [Num 5, Num 7, Num 9, Num 11], subtracted := False\<rparr>, None)
   \<and> unsubtract (session_sub\<lparr>Spectrum_data := [Num 5, Num 7, Num 9, Num 11], subtracted := False\<rparr>)
     = (session_sub\<lparr>Spectrum_data := [Num 5, Num 7, Num 9, Num 11], subtracted := False,
          stdout := [not_subtracted_message]\<rparr>, None)"
  using unsubtract_twice [of session_sub
      "session_sub\<lparr>Spectrum_data := [Num 5, Num 7, Num 9, Num 11], subtracted := False\<rparr>" ShapeMismatch]
    unsubtract_session_sub
  by (simp add: session_sub_def session0_def)

end
